theory Spec2Isabelle
  imports Complex_Main
begin

section \<open>NumPy values used by the integration and grid-convergence modules\<close>

text \<open>
  The two modules compute on NumPy arrays of double-precision numbers. Finite array
  entries are modelled as real numbers (rounding and overflow are not modelled).
  A one-dimensional array is a list of reals, a two-dimensional array is the list of
  its rows. The values \<open>inf\<close>, \<open>-inf\<close> and \<open>nan\<close>, which \<open>numpy.log\<close> produces on a
  zero or negative argument, are modelled in the section on the convergence rate.

  An exception of the Python code is a value \<open>Inl e\<close> of the result type.
\<close>

datatype error = ValueError | IndexError | AttributeError | TypeError

type_synonym vec = "real list"
type_synonym mat = "real list list"

subsection \<open>Slicing with a step\<close>

text \<open>
  \<open>xs[s::k]\<close> for a start \<open>s \<ge> 0\<close> and a step \<open>k \<ge> 1\<close>: the entries at the indices
  \<open>s, s + k, s + 2 k, \<dots>\<close> below \<open>len(xs)\<close>. There are \<open>\<lceil>(len(xs) - s) / k\<rceil>\<close> of them
  (none when \<open>s \<ge> len(xs)\<close>); slicing never raises.
\<close>

definition slice_step :: "nat \<Rightarrow> nat \<Rightarrow> 'a list \<Rightarrow> 'a list" where
  "slice_step s k xs = map (\<lambda>i. xs ! (s + k * i)) [0..<(length xs - s + k - 1) div k]"

subsection \<open>Elementwise arithmetic with broadcasting\<close>

text \<open>
  An elementwise binary operation on two one-dimensional arrays of shapes \<open>(m,)\<close> and
  \<open>(n,)\<close>: NumPy stretches an operand of length one to the length of the other, combines
  equal lengths entry by entry, and raises \<open>ValueError\<close> (operands could not be broadcast
  together) otherwise.
\<close>

definition np_elementwise :: "(real \<Rightarrow> real \<Rightarrow> real) \<Rightarrow> vec \<Rightarrow> vec \<Rightarrow> error + vec" where
  "np_elementwise f xs ys =
     (if length xs = length ys then Inr (map2 f xs ys)
      else if length xs = 1 then Inr (map (f (hd xs)) ys)
      else if length ys = 1 then Inr (map (\<lambda>x. f x (hd ys)) xs)
      else Inl ValueError)"

definition np_add :: "vec \<Rightarrow> vec \<Rightarrow> error + vec" where
  "np_add = np_elementwise (+)"

definition np_sub :: "vec \<Rightarrow> vec \<Rightarrow> error + vec" where
  "np_sub = np_elementwise (-)"

text \<open>A scalar times an array, an array plus a scalar, and an array divided by a scalar.\<close>

definition np_scale :: "real \<Rightarrow> vec \<Rightarrow> vec" where
  "np_scale c xs = map (\<lambda>x. c * x) xs"

definition np_add_scalar :: "vec \<Rightarrow> real \<Rightarrow> vec" where
  "np_add_scalar xs c = map (\<lambda>x. x + c) xs"

definition np_div_scalar :: "vec \<Rightarrow> real \<Rightarrow> vec" where
  "np_div_scalar xs c = map (\<lambda>x. x / c) xs"

section \<open>Increment coarsening: \<open>double_increments\<close>\<close>

text \<open>
  \<^verbatim>\<open>
  def double_increments(times, U1s, U2s=None):
      new_times = times[::2]
      even_U1s = U1s[::2]
      odd_U1s = U1s[1::2]
      new_U1s = (even_U1s + odd_U1s)/np.sqrt(2)
      if U2s is None:
          return new_times, new_U1s
      else:
          even_U2s = U2s[::2]
          odd_U2s = U2s[1::2]
          new_U2s = (np.sqrt(3)*(even_U1s - odd_U1s) +
                     even_U2s + odd_U2s)/(2*np.sqrt(2))
          return new_times, new_U1s, new_U2s
  \<close>
  The optional argument \<open>U2s\<close> is an \<open>option\<close>; the result carries the new \<open>U2s\<close> exactly
  when \<open>U2s\<close> was given (the Python returns a pair or a triple). The argument \<open>times\<close>
  is written \<open>tms\<close>.
\<close>

definition double_increments ::
  "vec \<Rightarrow> vec \<Rightarrow> vec option \<Rightarrow> error + (vec \<times> vec \<times> vec option)" where
  "double_increments tms U1s U2s =
     (let new_times = slice_step 0 2 tms;
          even_U1s = slice_step 0 2 U1s;
          odd_U1s = slice_step 1 2 U1s
      in case np_add even_U1s odd_U1s of
           Inl e \<Rightarrow> Inl e
         | Inr s1 \<Rightarrow>
             let new_U1s = np_div_scalar s1 (sqrt 2)
             in (case U2s of
                   None \<Rightarrow> Inr (new_times, new_U1s, None)
                 | Some U2 \<Rightarrow>
                     let even_U2s = slice_step 0 2 U2;
                         odd_U2s = slice_step 1 2 U2
                     in (case np_sub even_U1s odd_U1s of
                           Inl e \<Rightarrow> Inl e
                         | Inr d1 \<Rightarrow>
                             (case np_add (np_scale (sqrt 3) d1) even_U2s of
                                Inl e \<Rightarrow> Inl e
                              | Inr t1 \<Rightarrow>
                                  (case np_add t1 odd_U2s of
                                     Inl e \<Rightarrow> Inl e
                                   | Inr t2 \<Rightarrow>
                                       Inr (new_times, new_U1s,
                                            Some (np_div_scalar t2 (2 * sqrt 2))))))))"

section \<open>Convergence rate: \<open>l1_norm\<close> and \<open>calc_rate\<close>\<close>

text \<open>
  \<^verbatim>\<open>
  def l1_norm(vec):
      return np.sum(np.abs(vec))
  \<close>
\<close>

definition l1_norm :: "vec \<Rightarrow> real" where
  "l1_norm v = sum_list (map abs v)"

text \<open>
  \<open>numpy.log\<close> does not raise on a zero or negative argument (NumPy's default error
  handling only warns): it returns \<open>-inf\<close> at zero and \<open>nan\<close> below zero. The results of
  the logarithm and of the arithmetic on them are therefore values of \<open>npfloat\<close>: a
  finite number (a real, as above), one of the two infinities, or not-a-number.
\<close>

datatype npfloat = Finite real | PosInf | NegInf | NaN

definition np_log :: "real \<Rightarrow> npfloat" where
  "np_log x = (if 0 < x then Finite (ln x) else if x = 0 then NegInf else NaN)"

text \<open>IEEE subtraction on these values.\<close>

fun npfloat_sub :: "npfloat \<Rightarrow> npfloat \<Rightarrow> npfloat" where
  "npfloat_sub NaN _ = NaN"
| "npfloat_sub _ NaN = NaN"
| "npfloat_sub (Finite a) (Finite b) = Finite (a - b)"
| "npfloat_sub (Finite a) PosInf = NegInf"
| "npfloat_sub (Finite a) NegInf = PosInf"
| "npfloat_sub PosInf PosInf = NaN"
| "npfloat_sub PosInf _ = PosInf"
| "npfloat_sub NegInf NegInf = NaN"
| "npfloat_sub NegInf _ = NegInf"

text \<open>
  IEEE division by a positive finite number \<open>c\<close>; \<open>calc_rate\<close> divides by \<open>np.log(2)\<close>
  only, which is the positive finite number \<open>ln 2\<close>.
\<close>

fun npfloat_div_pos :: "npfloat \<Rightarrow> real \<Rightarrow> npfloat" where
  "npfloat_div_pos (Finite a) c = Finite (a / c)"
| "npfloat_div_pos PosInf c = PosInf"
| "npfloat_div_pos NegInf c = NegInf"
| "npfloat_div_pos NaN c = NaN"

text \<open>\<open>xs[-1]\<close>: the last entry, \<open>IndexError\<close> on an empty sequence.\<close>

definition py_last :: "'a list \<Rightarrow> error + 'a" where
  "py_last xs = (if xs = [] then Inl IndexError else Inr (last xs))"

text \<open>
  \<open>np.random.randn(n)\<close> draws \<open>n\<close> samples from the process-wide generator and raises
  \<open>ValueError\<close> on a negative \<open>n\<close>. The generator is a state \<open>g\<close> passed through, and
  \<open>randn\<close> is its sampling function (a parameter: it is NumPy's).
\<close>

definition np_random_randn ::
  "('g \<Rightarrow> nat \<Rightarrow> vec \<times> 'g) \<Rightarrow> 'g \<Rightarrow> int \<Rightarrow> (error + vec) \<times> 'g" where
  "np_random_randn randn g n =
     (if n < 0 then (Inl ValueError, g)
      else (case randn g (nat n) of (xs, g') \<Rightarrow> (Inr xs, g')))"

definition noise_or_draw ::
  "('g \<Rightarrow> nat \<Rightarrow> vec \<times> 'g) \<Rightarrow> 'g \<Rightarrow> int \<Rightarrow> vec option \<Rightarrow> (error + vec) \<times> 'g" where
  "noise_or_draw randn g n Us =
     (case Us of None \<Rightarrow> np_random_randn randn g n | Some U \<Rightarrow> (Inr U, g))"

text \<open>
  \<^verbatim>\<open>
  def calc_rate(integrator, rho_0, times, U1s=None, U2s=None):
      increments = len(times) - 1
      if U1s is None:
          U1s = np.random.randn(increments)
      if U2s is None:
          U2s = np.random.randn(increments)
      times_2, U1s_2, U2s_2 = double_increments(times, U1s, U2s)
      times_4, U1s_4, U2s_4 = double_increments(times_2, U1s_2, U2s_2)
      rhos = integrator.integrate(rho_0, times, U1s, U2s)
      rhos_2 = integrator.integrate(rho_0, times_2, U1s_2, U2s_2)
      rhos_4 = integrator.integrate(rho_0, times_4, U1s_4, U2s_4)
      rate = (np.log(l1_norm(rhos_4[-1] - rhos_2[-1])) -
              np.log(l1_norm(rhos_2[-1] - rhos[-1])))/np.log(2)
      return rate
  \<close>
  The integrator is the function \<open>integrate\<close> that \<open>integrator.integrate\<close> denotes: it
  maps the initial state, the times and the two noise arrays to a trajectory (a list
  of state vectors) or raises. The result of \<open>calc_rate\<close> comes with the generator state.
\<close>

definition rate_of_final_states :: "vec list \<Rightarrow> vec list \<Rightarrow> vec list \<Rightarrow> error + npfloat" where
  "rate_of_final_states rhos rhos_2 rhos_4 =
     (case py_last rhos_4 of Inl e \<Rightarrow> Inl e | Inr r4 \<Rightarrow>
      case py_last rhos_2 of Inl e \<Rightarrow> Inl e | Inr r2 \<Rightarrow>
      case np_sub r4 r2 of Inl e \<Rightarrow> Inl e | Inr d42 \<Rightarrow>
      case py_last rhos of Inl e \<Rightarrow> Inl e | Inr r1 \<Rightarrow>
      case np_sub r2 r1 of Inl e \<Rightarrow> Inl e | Inr d21 \<Rightarrow>
        Inr (npfloat_div_pos
               (npfloat_sub (np_log (l1_norm d42)) (np_log (l1_norm d21)))
               (ln 2)))"

definition calc_rate ::
  "('g \<Rightarrow> nat \<Rightarrow> vec \<times> 'g) \<Rightarrow> 'g \<Rightarrow>
   ('rho \<Rightarrow> vec \<Rightarrow> vec \<Rightarrow> vec \<Rightarrow> error + vec list) \<Rightarrow>
   'rho \<Rightarrow> vec \<Rightarrow> vec option \<Rightarrow> vec option \<Rightarrow> (error + npfloat) \<times> 'g" where
  "calc_rate randn g integrate rho_0 tms U1s U2s =
     (let increments = int (length tms) - 1
      in case noise_or_draw randn g increments U1s of
           (Inl e, g1) \<Rightarrow> (Inl e, g1)
         | (Inr U1, g1) \<Rightarrow>
      (case noise_or_draw randn g1 increments U2s of
           (Inl e, g2) \<Rightarrow> (Inl e, g2)
         | (Inr U2, g2) \<Rightarrow>
      (case double_increments tms U1 (Some U2) of
           Inl e \<Rightarrow> (Inl e, g2)
         | Inr (times_2, U1s_2, None) \<Rightarrow> (Inl ValueError, g2)
         | Inr (times_2, U1s_2, Some U2s_2) \<Rightarrow>
      (case double_increments times_2 U1s_2 (Some U2s_2) of
           Inl e \<Rightarrow> (Inl e, g2)
         | Inr (times_4, U1s_4, None) \<Rightarrow> (Inl ValueError, g2)
         | Inr (times_4, U1s_4, Some U2s_4) \<Rightarrow>
      (case integrate rho_0 tms U1 U2 of
           Inl e \<Rightarrow> (Inl e, g2)
         | Inr rhos \<Rightarrow>
      (case integrate rho_0 times_2 U1s_2 U2s_2 of
           Inl e \<Rightarrow> (Inl e, g2)
         | Inr rhos_2 \<Rightarrow>
      (case integrate rho_0 times_4 U1s_4 U2s_4 of
           Inl e \<Rightarrow> (Inl e, g2)
         | Inr rhos_4 \<Rightarrow> (rate_of_final_states rhos rhos_2 rhos_4, g2))))))))"

text \<open>
  The branches with \<open>None\<close> stand for unpacking a pair into three names, which raises
  \<open>ValueError\<close>; they are never taken, since \<open>double_increments\<close> is called with \<open>U2s\<close>.
\<close>

subsection \<open>The coarsening and the rate in the words of the specification\<close>

text \<open>
  The specification's coarsening of a grid with \<open>n\<close> intervals: the times at every other
  index, and for each pair index \<open>i < n / 2\<close>
  \<open>U1'_i = (U1_{2i} + U1_{2i+1}) / \<surd>2\<close> and
  \<open>U2'_i = (\<surd>3 (U1_{2i} - U1_{2i+1}) + U2_{2i} + U2_{2i+1}) / (2 \<surd>2)\<close>.
\<close>

definition spec_coarse_times :: "nat \<Rightarrow> vec \<Rightarrow> vec" where
  "spec_coarse_times n tms = map (\<lambda>i. tms ! (2 * i)) [0..<n div 2 + 1]"

definition spec_coarse_U1 :: "nat \<Rightarrow> vec \<Rightarrow> vec" where
  "spec_coarse_U1 n U1 = map (\<lambda>i. (U1 ! (2 * i) + U1 ! (2 * i + 1)) / sqrt 2) [0..<n div 2]"

definition spec_coarse_U2 :: "nat \<Rightarrow> vec \<Rightarrow> vec \<Rightarrow> vec" where
  "spec_coarse_U2 n U1 U2 =
     map (\<lambda>i. (sqrt 3 * (U1 ! (2 * i) - U1 ! (2 * i + 1)) + U2 ! (2 * i) + U2 ! (2 * i + 1))
               / (2 * sqrt 2)) [0..<n div 2]"

text \<open>The entrywise absolute-value sum of the difference of two vectors of one length.\<close>

definition spec_l1_distance :: "vec \<Rightarrow> vec \<Rightarrow> real" where
  "spec_l1_distance x y = (\<Sum>i<length x. \<bar>x ! i - y ! i\<bar>)"

section \<open>Matrix products and two-dimensional arithmetic\<close>

text \<open>
  The state \<open>rho\<close> and the vector \<open>k_T\<close> are one-dimensional arrays of one length \<open>n\<close>,
  the operators \<open>Q\<close>, \<open>G\<close> and their products are \<open>n \<times> n\<close> arrays. (The integrator
  classes pass the state as an \<open>n \<times> 1\<close> column; every operation below has the same
  entries on it.) An array with no row is taken to have the shape \<open>(0, 0)\<close>.
\<close>

definition ncols :: "mat \<Rightarrow> nat" where
  "ncols M = (case M of [] \<Rightarrow> 0 | r # _ \<Rightarrow> length r)"

definition is_mat :: "nat \<Rightarrow> nat \<Rightarrow> mat \<Rightarrow> bool" where
  "is_mat r c M \<longleftrightarrow> length M = r \<and> list_all (\<lambda>row. length row = c) M"

definition dot :: "vec \<Rightarrow> vec \<Rightarrow> real" where
  "dot a b = sum_list (map2 (*) a b)"

definition column :: "mat \<Rightarrow> nat \<Rightarrow> vec" where
  "column M j = map (\<lambda>row. row ! j) M"

text \<open>
  \<open>np.dot\<close> on a vector and a vector (a number), a matrix and a vector, a vector and
  a matrix, and two matrices. It raises \<open>ValueError\<close> when the shapes are not aligned:
  the last dimension of the first operand must be the first dimension of the second.
\<close>

definition np_dot_vv :: "vec \<Rightarrow> vec \<Rightarrow> error + real" where
  "np_dot_vv a b = (if length a = length b then Inr (dot a b) else Inl ValueError)"

definition np_dot_mv :: "mat \<Rightarrow> vec \<Rightarrow> error + vec" where
  "np_dot_mv M v =
     (if ncols M = length v \<and> is_mat (length M) (length v) M
      then Inr (map (\<lambda>row. dot row v) M)
      else Inl ValueError)"

definition np_dot_vm :: "vec \<Rightarrow> mat \<Rightarrow> error + vec" where
  "np_dot_vm a M =
     (if is_mat (length a) (ncols M) M then Inr (map (\<lambda>j. dot a (column M j)) [0..<ncols M])
      else Inl ValueError)"

definition np_dot_mm :: "mat \<Rightarrow> mat \<Rightarrow> error + mat" where
  "np_dot_mm A B =
     (if ncols A = length B \<and> is_mat (length A) (length B) A \<and>
         is_mat (length B) (ncols B) B
      then Inr (map (\<lambda>row. map (\<lambda>j. dot row (column B j)) [0..<ncols B]) A)
      else Inl ValueError)"

text \<open>A number times a matrix, and the sum of two matrices with NumPy's broadcasting.\<close>

definition np_scale_mat :: "real \<Rightarrow> mat \<Rightarrow> mat" where
  "np_scale_mat c M = map (map (\<lambda>x. c * x)) M"

definition np_add_mat :: "mat \<Rightarrow> mat \<Rightarrow> error + mat" where
  "np_add_mat A B =
     (let ra = length A; rb = length B; ca = ncols A; cb = ncols B
      in if is_mat ra ca A \<and> is_mat rb cb B \<and>
            (ra = rb \<or> ra = 1 \<or> rb = 1) \<and> (ca = cb \<or> ca = 1 \<or> cb = 1)
         then Inr (map (\<lambda>i. map (\<lambda>j. A ! (if ra = 1 then 0 else i) ! (if ca = 1 then 0 else j)
                                     + B ! (if rb = 1 then 0 else i) ! (if cb = 1 then 0 else j))
                                [0..<(if ca = 1 then cb else ca)])
                       [0..<(if ra = 1 then rb else ra)])
         else Inl ValueError)"

section \<open>Derivative terms of \<open>integrate.py\<close>\<close>

text \<open>
  \<^verbatim>\<open>
  def b_dx_b(G2, k_T_G, G, k_T, rho):
      k_rho_dot = np.dot(k_T, rho)
      return (np.dot(k_T_G, rho) + 2*k_rho_dot**2)*rho + \
              np.dot(G2 + 2*k_rho_dot*G, rho)
  \<close>
\<close>

definition b_dx_b :: "mat \<Rightarrow> vec \<Rightarrow> mat \<Rightarrow> vec \<Rightarrow> vec \<Rightarrow> error + vec" where
  "b_dx_b G2 k_T_G G k_T rho =
     (case np_dot_vv k_T rho of Inl e \<Rightarrow> Inl e | Inr k_rho_dot \<Rightarrow>
      case np_dot_vv k_T_G rho of Inl e \<Rightarrow> Inl e | Inr k_T_G_rho \<Rightarrow>
      case np_add_mat G2 (np_scale_mat (2 * k_rho_dot) G) of Inl e \<Rightarrow> Inl e | Inr M \<Rightarrow>
      case np_dot_mv M rho of Inl e \<Rightarrow> Inl e | Inr Mrho \<Rightarrow>
        np_add (np_scale (k_T_G_rho + 2 * k_rho_dot ^ 2) rho) Mrho)"

text \<open>
  \<^verbatim>\<open>
  def b_dx_a(QG, k_T, Q, rho):
      return np.dot(QG + np.dot(k_T, rho)*Q, rho)
  \<close>
\<close>

definition b_dx_a :: "mat \<Rightarrow> vec \<Rightarrow> mat \<Rightarrow> vec \<Rightarrow> error + vec" where
  "b_dx_a QG k_T Q rho =
     (case np_dot_vv k_T rho of Inl e \<Rightarrow> Inl e | Inr k_rho_dot \<Rightarrow>
      case np_add_mat QG (np_scale_mat k_rho_dot Q) of Inl e \<Rightarrow> Inl e | Inr M \<Rightarrow>
        np_dot_mv M rho)"

text \<open>
  \<^verbatim>\<open>
  def a_dx_b(GQ, k_T, Q, k_T_Q, rho):
      return np.dot(GQ + np.dot(k_T, rho)*Q, rho) + np.dot(k_T_Q, rho)
  \<close>
  The second summand is the number \<open>np.dot(k_T_Q, rho)\<close>: the sum adds it to every entry
  of the first.
\<close>

definition a_dx_b :: "mat \<Rightarrow> vec \<Rightarrow> mat \<Rightarrow> vec \<Rightarrow> vec \<Rightarrow> error + vec" where
  "a_dx_b GQ k_T Q k_T_Q rho =
     (case np_dot_vv k_T rho of Inl e \<Rightarrow> Inl e | Inr k_rho_dot \<Rightarrow>
      case np_add_mat GQ (np_scale_mat k_rho_dot Q) of Inl e \<Rightarrow> Inl e | Inr M \<Rightarrow>
      case np_dot_mv M rho of Inl e \<Rightarrow> Inl e | Inr Mrho \<Rightarrow>
      case np_dot_vv k_T_Q rho of Inl e \<Rightarrow> Inl e | Inr k_T_Q_rho \<Rightarrow>
        Inr (np_add_scalar Mrho k_T_Q_rho))"

text \<open>
  \<^verbatim>\<open>
  def a_dx_a(Q2, rho):
      return np.dot(Q2, rho)
  \<close>
\<close>

definition a_dx_a :: "mat \<Rightarrow> vec \<Rightarrow> error + vec" where
  "a_dx_a Q2 rho = np_dot_mv Q2 rho"

text \<open>
  \<^verbatim>\<open>
  def b_dx_b_dx_b(G3, G2, G, k_T, k_T_G, k_T_G2, rho):
      k_rho_dot = np.dot(k_T, rho)
      k_T_G_rho_dot = np.dot(k_T_G, rho)
      k_T_G2_rho_dot = np.dot(k_T_G2, rho)
      return (np.dot(G3 + 3*k_rho_dot*G2 + 3*(k_T_G_rho_dot + 2*k_rho_dot)*G,
                     rho) + (k_T_G2_rho_dot + 6*k_rho_dot*k_T_G_rho_dot +
                             6*k_rho_dot**3)*rho)
  \<close>
\<close>

definition b_dx_b_dx_b :: "mat \<Rightarrow> mat \<Rightarrow> mat \<Rightarrow> vec \<Rightarrow> vec \<Rightarrow> vec \<Rightarrow> vec \<Rightarrow> error + vec" where
  "b_dx_b_dx_b G3 G2 G k_T k_T_G k_T_G2 rho =
     (case np_dot_vv k_T rho of Inl e \<Rightarrow> Inl e | Inr k_rho_dot \<Rightarrow>
      case np_dot_vv k_T_G rho of Inl e \<Rightarrow> Inl e | Inr k_T_G_rho_dot \<Rightarrow>
      case np_dot_vv k_T_G2 rho of Inl e \<Rightarrow> Inl e | Inr k_T_G2_rho_dot \<Rightarrow>
      case np_add_mat G3 (np_scale_mat (3 * k_rho_dot) G2) of Inl e \<Rightarrow> Inl e | Inr M1 \<Rightarrow>
      case np_add_mat M1 (np_scale_mat (3 * (k_T_G_rho_dot + 2 * k_rho_dot)) G) of
        Inl e \<Rightarrow> Inl e | Inr M \<Rightarrow>
      case np_dot_mv M rho of Inl e \<Rightarrow> Inl e | Inr Mrho \<Rightarrow>
        np_add Mrho
          (np_scale (k_T_G2_rho_dot + 6 * k_rho_dot * k_T_G_rho_dot + 6 * k_rho_dot ^ 3) rho))"

section \<open>The integrator classes of \<open>integrate.py\<close>\<close>

text \<open>
  The fields an instance holds after its constructor has run. A
  \<open>MilsteinHomodyneIntegrator\<close> holds \<open>basis\<close>, \<open>Q\<close>, \<open>G\<close>, \<open>k_T\<close>, \<open>k_T_G\<close> and \<open>G2\<close>; a
  \<open>Taylor_1_5_HomodyneIntegrator\<close> holds these and six more products. The constructors
  build \<open>Q\<close>, \<open>G\<close> and \<open>k_T\<close> with \<open>diffusion_op\<close>, \<open>double_comm_op\<close>, \<open>hamiltonian_op\<close>
  and \<open>weiner_op\<close> of \<open>pysme.system_builder\<close>, which this development does not have;
  the products are \<open>np.dot\<close> of them.
\<close>

record 'b milstein_self =
  basis :: 'b
  Q :: mat
  G :: mat
  k_T :: vec
  k_T_G :: vec
  G2 :: mat

record 'b taylor_self = "'b milstein_self" +
  G3 :: mat
  Q2 :: mat
  QG :: mat
  GQ :: mat
  k_T_G2 :: vec
  k_T_Q :: vec

text \<open>
  The methods of \<open>MilsteinHomodyneIntegrator\<close> (they take a time \<open>t\<close> and ignore it):
  \<^verbatim>\<open>
  def a_fn(self, rho, t):
      return np.dot(self.Q, rho)
  def b_fn(self, rho, t):
      return np.dot(self.k_T, rho)*rho + np.dot(self.G, rho)
  def b_dx_b_fn(self, rho, t):
      return b_dx_b(self.G2, self.k_T_G, self.G, self.k_T, rho)
  \<close>
\<close>

definition drift :: "mat \<Rightarrow> vec \<Rightarrow> error + vec" where
  "drift Qm rho = np_dot_mv Qm rho"

definition diffusion :: "vec \<Rightarrow> mat \<Rightarrow> vec \<Rightarrow> error + vec" where
  "diffusion k Gm rho =
     (case np_dot_vv k rho of Inl e \<Rightarrow> Inl e | Inr k_rho_dot \<Rightarrow>
      case np_dot_mv Gm rho of Inl e \<Rightarrow> Inl e | Inr Grho \<Rightarrow>
        np_add (np_scale k_rho_dot rho) Grho)"

definition Milstein_a_fn :: "('b, 'm) milstein_self_scheme \<Rightarrow> vec \<Rightarrow> real \<Rightarrow> error + vec" where
  "Milstein_a_fn self rho t = drift (Q self) rho"

definition Milstein_b_fn :: "('b, 'm) milstein_self_scheme \<Rightarrow> vec \<Rightarrow> real \<Rightarrow> error + vec" where
  "Milstein_b_fn self rho t = diffusion (k_T self) (G self) rho"

definition Milstein_b_dx_b_fn :: "('b, 'm) milstein_self_scheme \<Rightarrow> vec \<Rightarrow> real \<Rightarrow> error + vec" where
  "Milstein_b_dx_b_fn self rho t = b_dx_b (G2 self) (k_T_G self) (G self) (k_T self) rho"

text \<open>
  The methods of \<open>Taylor_1_5_HomodyneIntegrator\<close> have the same bodies and no time
  argument; the class has four more:
  \<^verbatim>\<open>
  def b_dx_a_fn(self, rho):
      return b_dx_a(self.QG, self.k_T, self.Q, rho)
  def a_dx_b_fn(self, rho):
      return a_dx_b(self.GQ, self.k_T, self.Q, self.k_T_Q, rho)
  def a_dx_a_fn(self, rho):
      return a_dx_a(self.Q2, rho)
  def b_dx_b_dx_b_fn(self, rho):
      return b_dx_b_dx_b(self.G3, self.G2, self.G, self.k_T, self.k_T_G,
                         self.k_T_G2, rho)
  \<close>
\<close>

definition Taylor_a_fn :: "'b taylor_self \<Rightarrow> vec \<Rightarrow> error + vec" where
  "Taylor_a_fn self rho = drift (Q self) rho"

definition Taylor_b_fn :: "'b taylor_self \<Rightarrow> vec \<Rightarrow> error + vec" where
  "Taylor_b_fn self rho = diffusion (k_T self) (G self) rho"

definition Taylor_b_dx_b_fn :: "'b taylor_self \<Rightarrow> vec \<Rightarrow> error + vec" where
  "Taylor_b_dx_b_fn self rho = b_dx_b (G2 self) (k_T_G self) (G self) (k_T self) rho"

definition Taylor_b_dx_a_fn :: "'b taylor_self \<Rightarrow> vec \<Rightarrow> error + vec" where
  "Taylor_b_dx_a_fn self rho = b_dx_a (QG self) (k_T self) (Q self) rho"

definition Taylor_a_dx_b_fn :: "'b taylor_self \<Rightarrow> vec \<Rightarrow> error + vec" where
  "Taylor_a_dx_b_fn self rho = a_dx_b (GQ self) (k_T self) (Q self) (k_T_Q self) rho"

definition Taylor_a_dx_a_fn :: "'b taylor_self \<Rightarrow> vec \<Rightarrow> error + vec" where
  "Taylor_a_dx_a_fn self rho = a_dx_a (Q2 self) rho"

definition Taylor_b_dx_b_dx_b_fn :: "'b taylor_self \<Rightarrow> vec \<Rightarrow> error + vec" where
  "Taylor_b_dx_b_dx_b_fn self rho =
     b_dx_b_dx_b (G3 self) (G2 self) (G self) (k_T self) (k_T_G self) (k_T_G2 self) rho"

text \<open>
  \<^verbatim>\<open>
  def integrate(self, rho_0, times, U1s=None, U2s=None):      # MilsteinHomodyneIntegrator
      rho_0_vec = np.array([[comp.real]
                            for comp in vectorize(rho_0, self.basis)])
      if U1s is None:
          U1s = np.random.randn(len(times) -1)
      return milstein(self.a_fn, self.b_fn, self.b_dx_b_fn, rho_0_vec, times,
                      U1s)
  \<close>
  \<open>vectorize\<close> (of \<open>pysme.system_builder\<close>) and the stepper \<open>milstein\<close> (of \<open>pysme.sde\<close>)
  are parameters: the development does not have the two modules. Each may raise.
\<close>

type_synonym field_t = "vec \<Rightarrow> real \<Rightarrow> error + vec"
type_synonym field = "vec \<Rightarrow> error + vec"

definition real_components :: "(error + complex list) \<Rightarrow> error + vec" where
  "real_components r = (case r of Inl e \<Rightarrow> Inl e | Inr comps \<Rightarrow> Inr (map Re comps))"

definition Milstein_integrate ::
  "('g \<Rightarrow> nat \<Rightarrow> vec \<times> 'g) \<Rightarrow> ('rho \<Rightarrow> 'b \<Rightarrow> error + complex list) \<Rightarrow>
   (field_t \<Rightarrow> field_t \<Rightarrow> field_t \<Rightarrow> vec \<Rightarrow> vec \<Rightarrow> vec \<Rightarrow> error + vec list) \<Rightarrow>
   ('b, 'm) milstein_self_scheme \<Rightarrow> 'g \<Rightarrow> 'rho \<Rightarrow> vec \<Rightarrow> vec option \<Rightarrow> vec option \<Rightarrow>
   (error + vec list) \<times> 'g" where
  "Milstein_integrate randn vectorize milstein self g rho_0 tms U1s U2s =
     (case real_components (vectorize rho_0 (basis self)) of
        Inl e \<Rightarrow> (Inl e, g)
      | Inr rho_0_vec \<Rightarrow>
          (case noise_or_draw randn g (int (length tms) - 1) U1s of
             (Inl e, g1) \<Rightarrow> (Inl e, g1)
           | (Inr U1, g1) \<Rightarrow>
               (milstein (Milstein_a_fn self) (Milstein_b_fn self) (Milstein_b_dx_b_fn self)
                  rho_0_vec tms U1, g1)))"

text \<open>
  \<open>FaultyMilsteinHomodyneIntegrator\<close> is a subclass of \<open>MilsteinHomodyneIntegrator\<close>
  whose \<open>integrate\<close> has the same body with the stepper \<open>faulty_milstein\<close>.
\<close>

definition FaultyMilstein_integrate ::
  "('g \<Rightarrow> nat \<Rightarrow> vec \<times> 'g) \<Rightarrow> ('rho \<Rightarrow> 'b \<Rightarrow> error + complex list) \<Rightarrow>
   (field_t \<Rightarrow> field_t \<Rightarrow> field_t \<Rightarrow> vec \<Rightarrow> vec \<Rightarrow> vec \<Rightarrow> error + vec list) \<Rightarrow>
   ('b, 'm) milstein_self_scheme \<Rightarrow> 'g \<Rightarrow> 'rho \<Rightarrow> vec \<Rightarrow> vec option \<Rightarrow> vec option \<Rightarrow>
   (error + vec list) \<times> 'g" where
  "FaultyMilstein_integrate randn vectorize faulty_milstein self g rho_0 tms U1s U2s =
     (case real_components (vectorize rho_0 (basis self)) of
        Inl e \<Rightarrow> (Inl e, g)
      | Inr rho_0_vec \<Rightarrow>
          (case noise_or_draw randn g (int (length tms) - 1) U1s of
             (Inl e, g1) \<Rightarrow> (Inl e, g1)
           | (Inr U1, g1) \<Rightarrow>
               (faulty_milstein (Milstein_a_fn self) (Milstein_b_fn self)
                  (Milstein_b_dx_b_fn self) rho_0_vec tms U1, g1)))"

text \<open>
  \<^verbatim>\<open>
  def integrate(self, rho_0, times, U1s=None, U2s=None):      # Taylor_1_5_HomodyneIntegrator
      rho_0_vec = np.array([[comp.real]
                            for comp in vectorize(rho_0, self.basis)])
      if U1s is None:
          U1s = np.random.randn(len(times) -1)
      if U2s is None:
          U2s = np.random.randn(len(times) -1)
      return time_ind_taylor_1_5(self.a_fn, self.b_fn, self.b_dx_b_fn,
                                 self.b_dx_a_fn, self.a_dx_b_fn,
                                 self.a_dx_a_fn, self.b_dx_b_dx_b_fn,
                                 rho_0_vec, times, U1s, U2s)
  \<close>
\<close>

definition Taylor_integrate ::
  "('g \<Rightarrow> nat \<Rightarrow> vec \<times> 'g) \<Rightarrow> ('rho \<Rightarrow> 'b \<Rightarrow> error + complex list) \<Rightarrow>
   (field \<Rightarrow> field \<Rightarrow> field \<Rightarrow> field \<Rightarrow> field \<Rightarrow> field \<Rightarrow> field \<Rightarrow>
      vec \<Rightarrow> vec \<Rightarrow> vec \<Rightarrow> vec \<Rightarrow> error + vec list) \<Rightarrow>
   'b taylor_self \<Rightarrow> 'g \<Rightarrow> 'rho \<Rightarrow> vec \<Rightarrow> vec option \<Rightarrow> vec option \<Rightarrow>
   (error + vec list) \<times> 'g" where
  "Taylor_integrate randn vectorize time_ind_taylor_1_5 self g rho_0 tms U1s U2s =
     (case real_components (vectorize rho_0 (basis self)) of
        Inl e \<Rightarrow> (Inl e, g)
      | Inr rho_0_vec \<Rightarrow>
          (case noise_or_draw randn g (int (length tms) - 1) U1s of
             (Inl e, g1) \<Rightarrow> (Inl e, g1)
           | (Inr U1, g1) \<Rightarrow>
               (case noise_or_draw randn g1 (int (length tms) - 1) U2s of
                  (Inl e, g2) \<Rightarrow> (Inl e, g2)
                | (Inr U2, g2) \<Rightarrow>
                    (time_ind_taylor_1_5 (Taylor_a_fn self) (Taylor_b_fn self)
                       (Taylor_b_dx_b_fn self) (Taylor_b_dx_a_fn self) (Taylor_a_dx_b_fn self)
                       (Taylor_a_dx_a_fn self) (Taylor_b_dx_b_dx_b_fn self)
                       rho_0_vec tms U1 U2, g2))))"

section \<open>The unconditional integrators and the object passed to \<open>calc_rate\<close>\<close>

text \<open>
  The unconditional integrators are module-level functions, not classes:
  \<^verbatim>\<open>
  def uncond_vac_integrate(rho_0, c_op, basis, times):
      rho_0_vec = [comp.real for comp in vectorize(rho_0, basis)]
      diff_mat = diffusion_op(c_op, basis[:-1])
      return odeint(lambda rho_vec, t: np.dot(diff_mat, rho_vec), rho_0_vec,
              times, Dfun=(lambda rho_vec, t: diff_mat))
  \<close>
  The basis is a list of basis elements, \<open>basis[:-1]\<close> is the list without its last
  element. \<open>vectorize\<close>, \<open>diffusion_op\<close> (of \<open>pysme.system_builder\<close>) and \<open>odeint\<close> (of
  SciPy) are parameters: the development does not have them.
\<close>

type_synonym cmat = "complex list list"

definition uncond_vac_integrate ::
  "('rho \<Rightarrow> 'e list \<Rightarrow> error + complex list) \<Rightarrow> (cmat \<Rightarrow> 'e list \<Rightarrow> error + mat) \<Rightarrow>
   (field_t \<Rightarrow> vec \<Rightarrow> vec \<Rightarrow> (vec \<Rightarrow> real \<Rightarrow> mat) \<Rightarrow> error + vec list) \<Rightarrow>
   'rho \<Rightarrow> cmat \<Rightarrow> 'e list \<Rightarrow> vec \<Rightarrow> error + vec list" where
  "uncond_vac_integrate vectorize diffusion_op odeint rho_0 c_op basis_elements tms =
     (case real_components (vectorize rho_0 basis_elements) of
        Inl e \<Rightarrow> Inl e
      | Inr rho_0_vec \<Rightarrow>
          (case diffusion_op c_op (butlast basis_elements) of
             Inl e \<Rightarrow> Inl e
           | Inr diff_mat \<Rightarrow>
               odeint (\<lambda>rho_vec t. np_dot_mv diff_mat rho_vec) rho_0_vec tms
                 (\<lambda>rho_vec t. diff_mat)))"

text \<open>
  \<^verbatim>\<open>
  def uncond_gauss_integrate(rho_0, c_op, M_sq, N, H, basis, times):
      rho_0_vec = [comp.real for comp in vectorize(rho_0, basis)]
      diff_mat = (N + 1)*diffusion_op(c_op, basis[:-1]) + \
              N*diffusion_op(c_op.conj().T, basis[:-1]) + \
              double_comm_op(c_op, M_sq, basis[:-1]) + hamiltonian_op(H,
                      basis[:-1])
      return odeint(lambda rho_vec, t: np.dot(diff_mat, rho_vec), rho_0_vec,
              times, Dfun=(lambda rho_vec, t: diff_mat))
  \<close>
  \<open>c_op.conj().T\<close> is the conjugate transpose of the coupling operator.
\<close>

definition conj_T :: "cmat \<Rightarrow> cmat" where
  "conj_T c_op = transpose (map (map cnj) c_op)"

definition uncond_gauss_integrate ::
  "('rho \<Rightarrow> 'e list \<Rightarrow> error + complex list) \<Rightarrow> (cmat \<Rightarrow> 'e list \<Rightarrow> error + mat) \<Rightarrow>
   (cmat \<Rightarrow> complex \<Rightarrow> 'e list \<Rightarrow> error + mat) \<Rightarrow> (cmat \<Rightarrow> 'e list \<Rightarrow> error + mat) \<Rightarrow>
   (field_t \<Rightarrow> vec \<Rightarrow> vec \<Rightarrow> (vec \<Rightarrow> real \<Rightarrow> mat) \<Rightarrow> error + vec list) \<Rightarrow>
   'rho \<Rightarrow> cmat \<Rightarrow> complex \<Rightarrow> real \<Rightarrow> cmat \<Rightarrow> 'e list \<Rightarrow> vec \<Rightarrow> error + vec list" where
  "uncond_gauss_integrate vectorize diffusion_op double_comm_op hamiltonian_op odeint
       rho_0 c_op M_sq N H basis_elements tms =
     (case real_components (vectorize rho_0 basis_elements) of
        Inl e \<Rightarrow> Inl e
      | Inr rho_0_vec \<Rightarrow>
     (case diffusion_op c_op (butlast basis_elements) of Inl e \<Rightarrow> Inl e | Inr D1 \<Rightarrow>
      case diffusion_op (conj_T c_op) (butlast basis_elements) of Inl e \<Rightarrow> Inl e | Inr D2 \<Rightarrow>
      case np_add_mat (np_scale_mat (N + 1) D1) (np_scale_mat N D2) of
        Inl e \<Rightarrow> Inl e | Inr S1 \<Rightarrow>
      case double_comm_op c_op M_sq (butlast basis_elements) of Inl e \<Rightarrow> Inl e | Inr D3 \<Rightarrow>
      case np_add_mat S1 D3 of Inl e \<Rightarrow> Inl e | Inr S2 \<Rightarrow>
      case hamiltonian_op H (butlast basis_elements) of Inl e \<Rightarrow> Inl e | Inr D4 \<Rightarrow>
      case np_add_mat S2 D4 of Inl e \<Rightarrow> Inl e | Inr diff_mat \<Rightarrow>
        odeint (\<lambda>rho_vec t. np_dot_mv diff_mat rho_vec) rho_0_vec tms
          (\<lambda>rho_vec t. diff_mat)))"

text \<open>
  The values that \<open>integrate.py\<close> offers as an integrator: an instance of one of the
  three classes (with the fields its constructor has set), or one of the two function
  objects.
\<close>

datatype 'b integrator =
    Taylor_1_5_HomodyneIntegrator "'b taylor_self"
  | MilsteinHomodyneIntegrator "'b milstein_self"
  | FaultyMilsteinHomodyneIntegrator "'b milstein_self"
  | uncond_vac_integrate_function
  | uncond_gauss_integrate_function

text \<open>
  The expression \<open>integrator.integrate(rho_0, times, U1s, U2s)\<close>: Python looks the
  attribute \<open>integrate\<close> up on the value. On an instance of a class it is the method
  \<open>integrate\<close> of that class, called with the four arguments; a function object has no
  attribute \<open>integrate\<close>, and the lookup raises \<open>AttributeError\<close>.
\<close>

definition integrator_integrate ::
  "('g \<Rightarrow> nat \<Rightarrow> vec \<times> 'g) \<Rightarrow> ('rho \<Rightarrow> 'b \<Rightarrow> error + complex list) \<Rightarrow>
   (field_t \<Rightarrow> field_t \<Rightarrow> field_t \<Rightarrow> vec \<Rightarrow> vec \<Rightarrow> vec \<Rightarrow> error + vec list) \<Rightarrow>
   (field_t \<Rightarrow> field_t \<Rightarrow> field_t \<Rightarrow> vec \<Rightarrow> vec \<Rightarrow> vec \<Rightarrow> error + vec list) \<Rightarrow>
   (field \<Rightarrow> field \<Rightarrow> field \<Rightarrow> field \<Rightarrow> field \<Rightarrow> field \<Rightarrow> field \<Rightarrow>
      vec \<Rightarrow> vec \<Rightarrow> vec \<Rightarrow> vec \<Rightarrow> error + vec list) \<Rightarrow>
   'b integrator \<Rightarrow> 'g \<Rightarrow> 'rho \<Rightarrow> vec \<Rightarrow> vec option \<Rightarrow> vec option \<Rightarrow>
   (error + vec list) \<times> 'g" where
  "integrator_integrate randn vectorize milstein faulty_milstein time_ind_taylor_1_5
       integrator g rho_0 tms U1s U2s =
     (case integrator of
        Taylor_1_5_HomodyneIntegrator self \<Rightarrow>
          Taylor_integrate randn vectorize time_ind_taylor_1_5 self g rho_0 tms U1s U2s
      | MilsteinHomodyneIntegrator self \<Rightarrow>
          Milstein_integrate randn vectorize milstein self g rho_0 tms U1s U2s
      | FaultyMilsteinHomodyneIntegrator self \<Rightarrow>
          FaultyMilstein_integrate randn vectorize faulty_milstein self g rho_0 tms U1s U2s
      | uncond_vac_integrate_function \<Rightarrow> (Inl AttributeError, g)
      | uncond_gauss_integrate_function \<Rightarrow> (Inl AttributeError, g))"

text \<open>
  \<open>calc_rate\<close> calls \<open>integrator.integrate\<close> with both noise arrays; this is the function
  it calls, for a given integrator value and generator state.
\<close>

definition calc_rate_integrate ::
  "('g \<Rightarrow> nat \<Rightarrow> vec \<times> 'g) \<Rightarrow> ('rho \<Rightarrow> 'b \<Rightarrow> error + complex list) \<Rightarrow>
   (field_t \<Rightarrow> field_t \<Rightarrow> field_t \<Rightarrow> vec \<Rightarrow> vec \<Rightarrow> vec \<Rightarrow> error + vec list) \<Rightarrow>
   (field_t \<Rightarrow> field_t \<Rightarrow> field_t \<Rightarrow> vec \<Rightarrow> vec \<Rightarrow> vec \<Rightarrow> error + vec list) \<Rightarrow>
   (field \<Rightarrow> field \<Rightarrow> field \<Rightarrow> field \<Rightarrow> field \<Rightarrow> field \<Rightarrow> field \<Rightarrow>
      vec \<Rightarrow> vec \<Rightarrow> vec \<Rightarrow> vec \<Rightarrow> error + vec list) \<Rightarrow>
   'b integrator \<Rightarrow> 'g \<Rightarrow> 'rho \<Rightarrow> vec \<Rightarrow> vec \<Rightarrow> vec \<Rightarrow> error + vec list" where
  "calc_rate_integrate randn vectorize milstein faulty_milstein time_ind_taylor_1_5
       integrator g rho_0 tms U1s U2s =
     fst (integrator_integrate randn vectorize milstein faulty_milstein time_ind_taylor_1_5
            integrator g rho_0 tms (Some U1s) (Some U2s))"

section \<open>Directional derivatives of a vector field\<close>

text \<open>
  The specification calls the derivative terms directional derivatives: \<open>(v \<cdot> \<nabla>) f\<close> at
  \<open>rho\<close> is the derivative at \<open>t = 0\<close> of \<open>f (rho + t v)\<close>, entry by entry. The field \<open>f\<close>
  is a function of the code, which must return along the whole line.
\<close>

definition line_point :: "vec \<Rightarrow> vec \<Rightarrow> real \<Rightarrow> vec" where
  "line_point rho v t = map2 (\<lambda>x y. x + t * y) rho v"

definition directional_derivative :: "field \<Rightarrow> vec \<Rightarrow> vec \<Rightarrow> vec \<Rightarrow> bool" where
  "directional_derivative f v rho d \<longleftrightarrow>
     length v = length rho \<and> length d = length rho \<and>
     (\<exists>F. (\<forall>t. f (line_point rho v t) = Inr (F t) \<and> length (F t) = length rho) \<and>
          (\<forall>i<length rho. ((\<lambda>t. F t ! i) has_real_derivative d ! i) (at 0)))"

subsection \<open>The closed forms of the specification\<close>

definition mv :: "mat \<Rightarrow> vec \<Rightarrow> vec" where
  "mv M v = map (\<lambda>row. dot row v) M"

definition vadd :: "vec \<Rightarrow> vec \<Rightarrow> vec" where
  "vadd x y = map2 (+) x y"

text \<open>\<open>((k\<^sup>T G \<rho>) + 2 (k\<^sup>T \<rho>)\<^sup>2) \<rho> + G\<^sup>2 \<rho> + 2 (k\<^sup>T \<rho>) G \<rho>\<close>\<close>

definition spec_b_dx_b :: "mat \<Rightarrow> vec \<Rightarrow> mat \<Rightarrow> vec \<Rightarrow> vec \<Rightarrow> vec" where
  "spec_b_dx_b G2m kG Gm k rho =
     vadd (vadd (np_scale (dot kG rho + 2 * (dot k rho) ^ 2) rho) (mv G2m rho))
          (np_scale (2 * dot k rho) (mv Gm rho))"

text \<open>\<open>GQ \<rho> + (k\<^sup>T \<rho>) Q \<rho> + (k\<^sup>T Q \<rho>) \<rho>\<close>\<close>

definition spec_a_dx_b :: "mat \<Rightarrow> vec \<Rightarrow> mat \<Rightarrow> vec \<Rightarrow> vec \<Rightarrow> vec" where
  "spec_a_dx_b GQm k Qm kQ rho =
     vadd (vadd (mv GQm rho) (np_scale (dot k rho) (mv Qm rho)))
          (np_scale (dot kQ rho) rho)"

text \<open>
  \<open>G\<^sup>3 \<rho> + 3 (k\<^sup>T \<rho>) G\<^sup>2 \<rho> + 3 ((k\<^sup>T G \<rho>) + 2 (k\<^sup>T \<rho>)\<^sup>2) G \<rho>
   + ((k\<^sup>T G\<^sup>2 \<rho>) + 6 (k\<^sup>T \<rho>) (k\<^sup>T G \<rho>) + 6 (k\<^sup>T \<rho>)\<^sup>3) \<rho>\<close>
\<close>

definition spec_b_dx_b_dx_b :: "mat \<Rightarrow> mat \<Rightarrow> mat \<Rightarrow> vec \<Rightarrow> vec \<Rightarrow> vec \<Rightarrow> vec \<Rightarrow> vec" where
  "spec_b_dx_b_dx_b G3m G2m Gm k kG kG2 rho =
     vadd (vadd (vadd (mv G3m rho) (np_scale (3 * dot k rho) (mv G2m rho)))
                (np_scale (3 * (dot kG rho + 2 * (dot k rho) ^ 2)) (mv Gm rho)))
          (np_scale (dot kG2 rho + 6 * dot k rho * dot kG rho + 6 * (dot k rho) ^ 3) rho)"

text \<open>
  The derivative of the field \<open>b_dx_b\<close> along a direction \<open>v\<close> at \<open>rho\<close>, entry by entry
  (the product rule applied to the closed form of \<open>b_dx_b\<close>).
\<close>

definition b_dx_b_along :: "mat \<Rightarrow> vec \<Rightarrow> mat \<Rightarrow> vec \<Rightarrow> vec \<Rightarrow> vec \<Rightarrow> vec" where
  "b_dx_b_along G2m kG Gm k rho v =
     map (\<lambda>i. (dot kG v + 4 * dot k rho * dot k v) * rho ! i
              + (dot kG rho + 2 * (dot k rho)\<^sup>2) * v ! i
              + mv G2m v ! i + 2 * dot k v * mv Gm rho ! i + 2 * dot k rho * mv Gm v ! i)
         [0..<length rho]"

section \<open>Properties of the increment coarsening\<close>

subsection \<open>Slices of a sequence of even length\<close>

lemma odd_count: "even n \<Longrightarrow> (n - Suc 0 + 2 - 1) div 2 = n div 2"
  by presburger

lemma slice_even_len:
  "even n \<Longrightarrow> length xs = n \<Longrightarrow> slice_step 0 2 xs = map (\<lambda>i. xs ! (2 * i)) [0..<n div 2]"
  by (auto simp add: slice_step_def elim!: evenE)

lemma slice_odd_len:
  "even n \<Longrightarrow> length xs = n \<Longrightarrow>
   slice_step (Suc 0) 2 xs = map (\<lambda>i. xs ! (2 * i + 1)) [0..<n div 2]"
  using odd_count[of n] by (simp add: slice_step_def)

lemma slice_times_len:
  "even n \<Longrightarrow> length xs = n + 1 \<Longrightarrow>
   slice_step 0 2 xs = map (\<lambda>i. xs ! (2 * i)) [0..<n div 2 + 1]"
  by (auto simp add: slice_step_def elim!: evenE)

lemma map2_map_upt:
  "map2 f (map g [0..<m]) (map h [0..<m]) = map (\<lambda>i. f (g i) (h i)) [0..<m]"
  by (rule nth_equalityI) simp_all

lemma np_elementwise_upt:
  "np_elementwise f (map g [0..<m]) (map h [0..<m]) = Inr (map (\<lambda>i. f (g i) (h i)) [0..<m])"
  by (simp add: np_elementwise_def map2_map_upt)

subsection \<open>The code computes the specification's coarsening\<close>

lemma double_increments_even:
  assumes "even n" "length tms = n + 1" "length U1s = n" "length U2 = n"
  shows "double_increments tms U1s (Some U2) =
     Inr (spec_coarse_times n tms, spec_coarse_U1 n U1s, Some (spec_coarse_U2 n U1s U2))"
  using assms
  by (simp add: double_increments_def slice_even_len[of n] slice_odd_len[of n]
      slice_times_len[of n] np_add_def np_sub_def np_elementwise_upt np_scale_def
      np_div_scalar_def Let_def o_def
      spec_coarse_times_def spec_coarse_U1_def spec_coarse_U2_def)

lemma double_increments_even_None:
  assumes "even n" "length tms = n + 1" "length U1s = n"
  shows "double_increments tms U1s None =
     Inr (spec_coarse_times n tms, spec_coarse_U1 n U1s, None)"
  using assms
  by (simp add: double_increments_def slice_even_len[of n] slice_odd_len[of n]
      slice_times_len[of n] np_add_def np_elementwise_upt np_div_scalar_def Let_def o_def
      spec_coarse_times_def spec_coarse_U1_def)

lemma length_spec_coarse:
  "length (spec_coarse_times n tms) = n div 2 + 1"
  "length (spec_coarse_U1 n U1s) = n div 2"
  "length (spec_coarse_U2 n U1s U2s) = n div 2"
  by (simp_all add: spec_coarse_times_def spec_coarse_U1_def spec_coarse_U2_def)

text \<open>
  Claim C1. For a time sequence of length \<open>n + 1\<close> with \<open>n\<close> even and noise sequences
  \<open>U1s\<close>, \<open>U2s\<close> of length \<open>n\<close>, \<open>double_increments\<close> returns (it does not raise) the times
  at every other index, of length \<open>n / 2 + 1\<close>, and coarsened noise of length \<open>n / 2\<close>
  with \<open>U1'_i = (U1_{2i} + U1_{2i+1}) / \<surd>2\<close> and
  \<open>U2'_i = (\<surd>3 (U1_{2i} - U1_{2i+1}) + U2_{2i} + U2_{2i+1}) / (2 \<surd>2)\<close> for every pair
  index \<open>i\<close>; without \<open>U2s\<close> it returns the same times and \<open>U1'\<close>. The even spacing of the
  times is not needed: the function never looks at their values.
\<close>

theorem double_increments_coarsens:
  assumes "even n" "length tms = n + 1" "length U1s = n" "length U2s = n"
  shows "\<exists>new_times new_U1s new_U2s.
           double_increments tms U1s (Some U2s) = Inr (new_times, new_U1s, Some new_U2s) \<and>
           double_increments tms U1s None = Inr (new_times, new_U1s, None) \<and>
           length new_times = n div 2 + 1 \<and> length new_U1s = n div 2 \<and>
           length new_U2s = n div 2 \<and>
           (\<forall>j<n div 2 + 1. new_times ! j = tms ! (2 * j)) \<and>
           (\<forall>i<n div 2.
              new_U1s ! i = (U1s ! (2 * i) + U1s ! (2 * i + 1)) / sqrt 2 \<and>
              new_U2s ! i = (sqrt 3 * (U1s ! (2 * i) - U1s ! (2 * i + 1))
                             + U2s ! (2 * i) + U2s ! (2 * i + 1)) / (2 * sqrt 2))"
proof -
  have some: "double_increments tms U1s (Some U2s) =
      Inr (spec_coarse_times n tms, spec_coarse_U1 n U1s, Some (spec_coarse_U2 n U1s U2s))"
    using assms by (rule double_increments_even)
  have none: "double_increments tms U1s None =
      Inr (spec_coarse_times n tms, spec_coarse_U1 n U1s, None)"
    using assms(1-3) by (rule double_increments_even_None)
  have t: "\<forall>j<n div 2 + 1. spec_coarse_times n tms ! j = tms ! (2 * j)"
    unfolding spec_coarse_times_def by (auto simp del: upt_Suc)
  have u: "\<forall>i<n div 2.
      spec_coarse_U1 n U1s ! i = (U1s ! (2 * i) + U1s ! (2 * i + 1)) / sqrt 2 \<and>
      spec_coarse_U2 n U1s U2s ! i = (sqrt 3 * (U1s ! (2 * i) - U1s ! (2 * i + 1))
                             + U2s ! (2 * i) + U2s ! (2 * i + 1)) / (2 * sqrt 2)"
    by (simp add: spec_coarse_U1_def spec_coarse_U2_def)
  from some none t u length_spec_coarse [of n] show ?thesis by blast
qed

theorem double_increments_coarsens_witness:
  "even (2::nat) \<and> length [0, 1, 2::real] = 2 + 1 \<and> length [1, 2::real] = 2 \<and>
   length [3, 4::real] = 2 \<and>
   (\<exists>new_times new_U1s new_U2s.
      double_increments [0, 1, 2] [1, 2] (Some [3, 4]) = Inr (new_times, new_U1s, Some new_U2s) \<and>
      double_increments [0, 1, 2] [1, 2] None = Inr (new_times, new_U1s, None) \<and>
      length new_times = 2 div 2 + 1 \<and> length new_U1s = 2 div 2 \<and>
      length new_U2s = 2 div 2 \<and>
      (\<forall>j<2 div 2 + 1. new_times ! j = [0, 1, 2] ! (2 * j)) \<and>
      (\<forall>i<2 div 2.
         new_U1s ! i = ([1, 2] ! (2 * i) + [1, 2] ! (2 * i + 1)) / sqrt 2 \<and>
         new_U2s ! i = (sqrt 3 * ([1, 2] ! (2 * i) - [1, 2] ! (2 * i + 1))
                        + [3, 4] ! (2 * i) + [3, 4] ! (2 * i + 1)) / (2 * sqrt 2)))"
  using double_increments_coarsens [of 2 "[0, 1, 2]" "[1, 2]" "[3, 4]"] by simp

subsection \<open>Coarsening twice\<close>

lemma four_dvd_even: "4 dvd (n::nat) \<Longrightarrow> even n \<and> even (n div 2)"
  by (elim dvdE) simp

lemma slice_twice: "slice_step 0 2 (slice_step 0 2 xs) = slice_step 0 4 xs"
proof (rule nth_equalityI)
  show "length (slice_step 0 2 (slice_step 0 2 xs)) = length (slice_step 0 4 xs)"
    by (simp add: slice_step_def)
next
  fix i assume "i < length (slice_step 0 2 (slice_step 0 2 xs))"
  then have a: "i < ((length xs + 1) div 2 + 1) div 2" by (simp add: slice_step_def)
  then have b: "2 * i < (length xs + 1) div 2" by linarith
  from a have c: "i < (3 + length xs) div 4" by linarith
  show "slice_step 0 2 (slice_step 0 2 xs) ! i = slice_step 0 4 xs ! i"
    using a b c by (simp add: slice_step_def)
qed

lemma spec_coarse_times_slice:
  "even n \<Longrightarrow> length tms = n + 1 \<Longrightarrow> spec_coarse_times n tms = slice_step 0 2 tms"
  by (simp add: slice_times_len spec_coarse_times_def)

lemma double_increments_twice:
  assumes "4 dvd n" "length tms = n + 1" "length U1s = n" "length U2s = n"
  shows "double_increments tms U1s (Some U2s) =
           Inr (spec_coarse_times n tms, spec_coarse_U1 n U1s, Some (spec_coarse_U2 n U1s U2s))"
    and "double_increments (spec_coarse_times n tms) (spec_coarse_U1 n U1s)
             (Some (spec_coarse_U2 n U1s U2s)) =
           Inr (spec_coarse_times (n div 2) (spec_coarse_times n tms),
                spec_coarse_U1 (n div 2) (spec_coarse_U1 n U1s),
                Some (spec_coarse_U2 (n div 2) (spec_coarse_U1 n U1s)
                        (spec_coarse_U2 n U1s U2s)))"
proof -
  from four_dvd_even [OF assms(1)] have e: "even n" and e2: "even (n div 2)" by simp_all
  show "double_increments tms U1s (Some U2s) =
           Inr (spec_coarse_times n tms, spec_coarse_U1 n U1s, Some (spec_coarse_U2 n U1s U2s))"
    using e assms(2-4) by (rule double_increments_even)
  show "double_increments (spec_coarse_times n tms) (spec_coarse_U1 n U1s)
             (Some (spec_coarse_U2 n U1s U2s)) =
           Inr (spec_coarse_times (n div 2) (spec_coarse_times n tms),
                spec_coarse_U1 (n div 2) (spec_coarse_U1 n U1s),
                Some (spec_coarse_U2 (n div 2) (spec_coarse_U1 n U1s)
                        (spec_coarse_U2 n U1s U2s)))"
    using e2 by (rule double_increments_even) (simp_all add: length_spec_coarse)
qed

lemma coarse_times_twice:
  assumes "4 dvd n" "length tms = n + 1"
  shows "spec_coarse_times (n div 2) (spec_coarse_times n tms) = slice_step 0 4 tms"
proof -
  from four_dvd_even [OF assms(1)] have e: "even n" and e2: "even (n div 2)" by simp_all
  have "spec_coarse_times (n div 2) (spec_coarse_times n tms)
      = slice_step 0 2 (spec_coarse_times n tms)"
    using e2 by (rule spec_coarse_times_slice) (simp add: length_spec_coarse)
  also have "\<dots> = slice_step 0 2 (slice_step 0 2 tms)"
    using e assms(2) by (simp add: spec_coarse_times_slice)
  finally show ?thesis by (simp add: slice_twice)
qed

lemma slice_4_nth:
  assumes "4 dvd n" "length tms = n + 1"
  shows "slice_step 0 4 tms = map (\<lambda>j. tms ! (4 * j)) [0..<n div 4 + 1]"
proof -
  from assms(1) have "(n + 1 + 4 - 1) div 4 = n div 4 + 1" by (elim dvdE) simp
  then show ?thesis using assms(2) by (simp add: slice_step_def)
qed

text \<open>
  Claim C7. For a time sequence whose number \<open>n\<close> of intervals is divisible by 4 (and
  noise of length \<open>n\<close>, so that both calls return), applying \<open>double_increments\<close> twice,
  as \<open>calc_rate\<close> does, yields the original time points sampled at stride 4: the slice
  \<open>times[::4]\<close>, whose \<open>j\<close>-th entry is entry \<open>4 j\<close> of the original, for
  \<open>j = 0, \<dots>, n / 4\<close>. The even spacing of the times is not needed.
\<close>

theorem double_increments_twice_stride_4:
  assumes "4 dvd n" "length tms = n + 1" "length U1s = n" "length U2s = n"
  shows "\<exists>times_2 U1s_2 U2s_2 times_4 U1s_4 U2s_4.
           double_increments tms U1s (Some U2s) = Inr (times_2, U1s_2, Some U2s_2) \<and>
           double_increments times_2 U1s_2 (Some U2s_2) = Inr (times_4, U1s_4, Some U2s_4) \<and>
           times_4 = slice_step 0 4 tms \<and>
           length times_4 = n div 4 + 1 \<and>
           (\<forall>j<n div 4 + 1. times_4 ! j = tms ! (4 * j))"
proof -
  have n: "\<forall>j<n div 4 + 1. slice_step 0 4 tms ! j = tms ! (4 * j)"
    unfolding slice_4_nth [OF assms(1,2)] by (auto simp del: upt_Suc)
  have l: "length (slice_step 0 4 tms) = n div 4 + 1"
    by (simp add: slice_4_nth [OF assms(1,2)])
  show ?thesis
    using double_increments_twice [OF assms] n l
    by (simp add: coarse_times_twice [OF assms(1,2)])
qed

theorem double_increments_twice_stride_4_witness:
  "4 dvd (4::nat) \<and> length [0, 1, 2, 3, 4::real] = 4 + 1 \<and> length [1, 1, 1, 1::real] = 4 \<and>
   length [2, 2, 2, 2::real] = 4 \<and>
   (\<exists>times_2 U1s_2 U2s_2 times_4 U1s_4 U2s_4.
      double_increments [0, 1, 2, 3, 4] [1, 1, 1, 1] (Some [2, 2, 2, 2])
        = Inr (times_2, U1s_2, Some U2s_2) \<and>
      double_increments times_2 U1s_2 (Some U2s_2) = Inr (times_4, U1s_4, Some U2s_4) \<and>
      times_4 = slice_step 0 4 [0, 1, 2, 3, 4] \<and>
      length times_4 = 4 div 4 + 1 \<and>
      (\<forall>j<4 div 4 + 1. times_4 ! j = [0, 1, 2, 3, 4] ! (4 * j)))"
  using double_increments_twice_stride_4 [of 4 "[0, 1, 2, 3, 4]" "[1, 1, 1, 1]" "[2, 2, 2, 2]"]
  by simp

subsection \<open>An odd number of intervals\<close>

lemma odd_slices_ValueError:
  assumes "odd (length xs)" "5 \<le> length xs"
  shows "np_elementwise f (slice_step 0 2 xs) (slice_step (Suc 0) 2 xs) = Inl ValueError"
proof -
  have a: "length (slice_step 0 2 xs) = (length xs + 1) div 2" by (simp add: slice_step_def)
  have b: "length (slice_step (Suc 0) 2 xs) = length xs div 2" by (simp add: slice_step_def)
  from assms obtain m where m: "length xs = 2 * m + 1" "2 \<le> m"
    by (auto elim!: oddE)
  then have "(length xs + 1) div 2 \<noteq> length xs div 2"
    "(length xs + 1) div 2 \<noteq> 1" "length xs div 2 \<noteq> 1" by simp_all
  then show ?thesis by (simp add: np_elementwise_def a b)
qed

lemma double_increments_odd_raises:
  assumes "odd (length U1s)" "5 \<le> length U1s"
  shows "double_increments tms U1s U2s = Inl ValueError"
  using odd_slices_ValueError [OF assms]
  by (simp add: double_increments_def np_add_def)

text \<open>
  Claim C6, as the code has it. The claim says that on noise of odd length
  \<open>double_increments\<close> drops the trailing element and returns the coarsening of the
  remaining pairs. The code does so only for length 1 (no pair remains). For an odd
  length of 5 or more the even-indexed entries are one more than the odd-indexed ones,
  NumPy cannot add the two slices, and the call raises \<open>ValueError\<close>, whatever the times
  and \<open>U2s\<close> are. For length 3 the single odd-indexed entry is broadcast: two coarse
  entries come back, the second built from the trailing element and entry 1.
\<close>

theorem double_increments_odd:
  "(odd (length U1s) \<and> 5 \<le> length U1s \<longrightarrow> double_increments tms U1s U2s = Inl ValueError) \<and>
   double_increments tms [u0, u1, u2] (Some [v0, v1, v2]) =
     Inr (slice_step 0 2 tms, [(u0 + u1) / sqrt 2, (u2 + u1) / sqrt 2],
          Some [(sqrt 3 * (u0 - u1) + v0 + v1) / (2 * sqrt 2),
                (sqrt 3 * (u2 - u1) + v2 + v1) / (2 * sqrt 2)]) \<and>
   double_increments tms [u0, u1, u2] None =
     Inr (slice_step 0 2 tms, [(u0 + u1) / sqrt 2, (u2 + u1) / sqrt 2], None) \<and>
   double_increments tms [u0] (Some [v0]) = Inr (slice_step 0 2 tms, [], Some []) \<and>
   double_increments tms [u0] None = Inr (slice_step 0 2 tms, [], None)"
proof -
  have small: "slice_step 0 2 [a, b, c] = [a, c]" "slice_step (Suc 0) 2 [a, b, c] = [b]"
    "slice_step 0 2 [a] = [a]" "slice_step (Suc 0) 2 [a] = []" for a b c :: real
    by (simp_all add: slice_step_def upt_rec)
  show ?thesis
    using double_increments_odd_raises [of U1s tms U2s]
    by (simp add: double_increments_def small np_add_def np_sub_def np_elementwise_def
        np_scale_def np_div_scalar_def)
qed

theorem double_increments_odd_witness:
  "odd (length [1, 2, 3, 4, 5::real]) \<and> 5 \<le> length [1, 2, 3, 4, 5::real] \<and>
   double_increments [0, 1, 2, 3, 4, 5] [1, 2, 3, 4, 5] (Some [5, 4, 3, 2, 1]) = Inl ValueError"
  using double_increments_odd [of "[1, 2, 3, 4, 5]" "[0, 1, 2, 3, 4, 5]" "Some [5, 4, 3, 2, 1]"]
  by simp

text \<open>
  The claim as stated fails at five intervals: the call raises, no output is returned.
\<close>

theorem double_increments_odd_counterexample:
  "double_increments [0, 1, 2, 3, 4, 5] [1, 2, 3, 4, 5] (Some [5, 4, 3, 2, 1]) = Inl ValueError \<and>
   \<not> (\<exists>out. double_increments [0, 1, 2, 3, 4, 5] [1, 2, 3, 4, 5] (Some [5, 4, 3, 2, 1])
               = Inr out)"
  by (simp add: double_increments_def slice_step_def np_add_def np_elementwise_def upt_rec)

section \<open>Properties of the convergence rate\<close>

lemma l1_norm_difference:
  assumes "length x = length y"
  shows "np_sub x y = Inr (map2 (-) x y)"
    and "l1_norm (map2 (-) x y) = spec_l1_distance x y"
proof -
  show "np_sub x y = Inr (map2 (-) x y)"
    using assms by (simp add: np_sub_def np_elementwise_def)
  have "sum_list (map abs (map2 (-) x y)) = (\<Sum>i<length x. \<bar>x ! i - y ! i\<bar>)"
    using assms by (simp add: sum_list_sum_nth atLeast0LessThan)
  then show "l1_norm (map2 (-) x y) = spec_l1_distance x y"
    by (simp add: l1_norm_def spec_l1_distance_def)
qed

lemma spec_l1_distance_nonneg: "0 \<le> spec_l1_distance x y"
  by (simp add: spec_l1_distance_def sum_nonneg)

lemma spec_l1_distance_zero_iff:
  assumes "length x = length y"
  shows "spec_l1_distance x y = 0 \<longleftrightarrow> x = y"
proof
  assume "spec_l1_distance x y = 0"
  then have "\<forall>i\<in>{..<length x}. \<bar>x ! i - y ! i\<bar> = 0"
    unfolding spec_l1_distance_def by (subst (asm) sum_nonneg_eq_0_iff) simp_all
  then have "\<forall>i<length x. x ! i = y ! i" by simp
  with assms show "x = y" by (simp add: nth_equalityI)
next
  assume "x = y" then show "spec_l1_distance x y = 0" by (simp add: spec_l1_distance_def)
qed

lemma rate_of_final_states_value:
  assumes "rhos \<noteq> []" "rhos_2 \<noteq> []" "rhos_4 \<noteq> []"
    and "length (last rhos_4) = length (last rhos_2)" "length (last rhos_2) = length (last rhos)"
  shows "rate_of_final_states rhos rhos_2 rhos_4 =
           Inr (npfloat_div_pos
                  (npfloat_sub (np_log (spec_l1_distance (last rhos_4) (last rhos_2)))
                               (np_log (spec_l1_distance (last rhos_2) (last rhos))))
                  (ln 2))"
  using assms
  by (simp add: rate_of_final_states_def py_last_def l1_norm_difference)

lemma calc_rate_runs:
  assumes "4 dvd n" "length tms = n + 1" "length U1s = n" "length U2s = n"
    and "integrate rho_0 tms U1s U2s = Inr rhos"
    and "integrate rho_0 (spec_coarse_times n tms) (spec_coarse_U1 n U1s)
           (spec_coarse_U2 n U1s U2s) = Inr rhos_2"
    and "integrate rho_0 (spec_coarse_times (n div 2) (spec_coarse_times n tms))
           (spec_coarse_U1 (n div 2) (spec_coarse_U1 n U1s))
           (spec_coarse_U2 (n div 2) (spec_coarse_U1 n U1s) (spec_coarse_U2 n U1s U2s))
         = Inr rhos_4"
  shows "calc_rate randn g integrate rho_0 tms (Some U1s) (Some U2s) =
           (rate_of_final_states rhos rhos_2 rhos_4, g)"
  using assms(5-7)
  by (simp add: calc_rate_def noise_or_draw_def double_increments_twice [OF assms(1-4)])


text \<open>
  Claim C2. For every integrator (a function from the initial state, the times and the
  two noise arrays to a trajectory), every initial state, every time grid whose number
  \<open>n\<close> of intervals is divisible by 4 and supplied noise arrays of length \<open>n\<close>:
  \<open>calc_rate\<close> runs the integrator on the given grid and on the grids and noise obtained
  by applying the specification's coarsening once and twice, from the same initial
  state, and returns
  \<open>(log \<parallel>\<rho>\<^sub>4(T) - \<rho>\<^sub>2(T)\<parallel>\<^sub>1 - log \<parallel>\<rho>\<^sub>2(T) - \<rho>(T)\<parallel>\<^sub>1) / log 2\<close>
  for the final states of the three trajectories, \<open>\<parallel>\<cdot>\<parallel>\<^sub>1\<close> the entrywise absolute-value
  sum. The three runs are assumed to return non-empty trajectories whose final states
  have one dimension. The first conjunct gives the value in NumPy's arithmetic (with
  \<open>log 0 = -inf\<close>); when the final states differ pairwise, it is the finite real of the
  formula.
\<close>

theorem calc_rate_formula:
  assumes "4 dvd n" "length tms = n + 1" "length U1s = n" "length U2s = n"
    and "integrate rho_0 tms U1s U2s = Inr rhos"
    and "integrate rho_0 (spec_coarse_times n tms) (spec_coarse_U1 n U1s)
           (spec_coarse_U2 n U1s U2s) = Inr rhos_2"
    and "integrate rho_0 (spec_coarse_times (n div 2) (spec_coarse_times n tms))
           (spec_coarse_U1 (n div 2) (spec_coarse_U1 n U1s))
           (spec_coarse_U2 (n div 2) (spec_coarse_U1 n U1s) (spec_coarse_U2 n U1s U2s))
         = Inr rhos_4"
    and "rhos \<noteq> []" "rhos_2 \<noteq> []" "rhos_4 \<noteq> []"
    and "length (last rhos_4) = length (last rhos_2)" "length (last rhos_2) = length (last rhos)"
  shows "calc_rate randn g integrate rho_0 tms (Some U1s) (Some U2s) =
           (Inr (npfloat_div_pos
                   (npfloat_sub (np_log (spec_l1_distance (last rhos_4) (last rhos_2)))
                                (np_log (spec_l1_distance (last rhos_2) (last rhos))))
                   (ln 2)), g) \<and>
         (last rhos_4 \<noteq> last rhos_2 \<and> last rhos_2 \<noteq> last rhos \<longrightarrow>
          calc_rate randn g integrate rho_0 tms (Some U1s) (Some U2s) =
            (Inr (Finite ((ln (spec_l1_distance (last rhos_4) (last rhos_2))
                           - ln (spec_l1_distance (last rhos_2) (last rhos))) / ln 2)), g))"
proof -
  have run: "calc_rate randn g integrate rho_0 tms (Some U1s) (Some U2s) =
      (rate_of_final_states rhos rhos_2 rhos_4, g)"
    using assms(1-7) by (rule calc_rate_runs)
  have val: "rate_of_final_states rhos rhos_2 rhos_4 =
           Inr (npfloat_div_pos
                  (npfloat_sub (np_log (spec_l1_distance (last rhos_4) (last rhos_2)))
                               (np_log (spec_l1_distance (last rhos_2) (last rhos))))
                  (ln 2))"
    using assms(8-12) by (rule rate_of_final_states_value)
  have pos: "0 < spec_l1_distance x y" if "length x = length y" "x \<noteq> y" for x y
    using that spec_l1_distance_nonneg [of x y] spec_l1_distance_zero_iff [of x y]
    by (simp add: less_le)
  show ?thesis
    using pos [OF assms(11)] pos [OF assms(12)]
    by (simp add: run val np_log_def)
qed

theorem calc_rate_formula_witness:
  "4 dvd (4::nat) \<and> length [0, 1, 2, 3, 4::real] = 4 + 1 \<and>
   length [1, 1, 1, 1::real] = 4 \<and> length [2, 2, 2, 2::real] = 4 \<and>
   calc_rate (\<lambda>g n. (replicate n 0, g)) () (\<lambda>r t u v. Inr [[r * real (length t)]]) (1::real)
       [0, 1, 2, 3, 4] (Some [1, 1, 1, 1]) (Some [2, 2, 2, 2])
     = (Inr (Finite ((ln 1 - ln 2) / ln 2)), ())"
  using calc_rate_formula [of 4 "[0, 1, 2, 3, 4]" "[1, 1, 1, 1]" "[2, 2, 2, 2]"
      "\<lambda>r t u v. Inr [[r * real (length t)]]" "1::real" "[[5]]" "[[3]]" "[[2]]"
      "\<lambda>g n. (replicate n 0, g)" "()"]
  by (simp add: length_spec_coarse spec_l1_distance_def np_log_def)


text \<open>
  Claim C8, as the code has it. \<open>calc_rate\<close> has no check for a zero argument of the
  logarithm and raises nothing: whenever the three runs return non-empty trajectories
  with final states of one dimension, it returns a value. When the final states of all
  three resolutions coincide, the value is \<open>nan\<close> (\<open>-inf - (-inf)\<close>); when only those of the
  two coarse resolutions coincide it is \<open>-inf\<close>; when only those of the two fine
  resolutions coincide it is \<open>inf\<close>. (The argument of the logarithm is a sum of absolute
  values and is never negative.)
\<close>

theorem calc_rate_no_degeneracy_check:
  assumes "4 dvd n" "length tms = n + 1" "length U1s = n" "length U2s = n"
    and "integrate rho_0 tms U1s U2s = Inr rhos"
    and "integrate rho_0 (spec_coarse_times n tms) (spec_coarse_U1 n U1s)
           (spec_coarse_U2 n U1s U2s) = Inr rhos_2"
    and "integrate rho_0 (spec_coarse_times (n div 2) (spec_coarse_times n tms))
           (spec_coarse_U1 (n div 2) (spec_coarse_U1 n U1s))
           (spec_coarse_U2 (n div 2) (spec_coarse_U1 n U1s) (spec_coarse_U2 n U1s U2s))
         = Inr rhos_4"
    and "rhos \<noteq> []" "rhos_2 \<noteq> []" "rhos_4 \<noteq> []"
    and "length (last rhos_4) = length (last rhos_2)" "length (last rhos_2) = length (last rhos)"
  shows "(\<exists>rate. calc_rate randn g integrate rho_0 tms (Some U1s) (Some U2s) = (Inr rate, g)) \<and>
         (last rhos_4 = last rhos_2 \<and> last rhos_2 = last rhos \<longrightarrow>
            calc_rate randn g integrate rho_0 tms (Some U1s) (Some U2s) = (Inr NaN, g)) \<and>
         (last rhos_4 = last rhos_2 \<and> last rhos_2 \<noteq> last rhos \<longrightarrow>
            calc_rate randn g integrate rho_0 tms (Some U1s) (Some U2s) = (Inr NegInf, g)) \<and>
         (last rhos_4 \<noteq> last rhos_2 \<and> last rhos_2 = last rhos \<longrightarrow>
            calc_rate randn g integrate rho_0 tms (Some U1s) (Some U2s) = (Inr PosInf, g))"
proof -
  have run: "calc_rate randn g integrate rho_0 tms (Some U1s) (Some U2s) =
      (rate_of_final_states rhos rhos_2 rhos_4, g)"
    using assms(1-7) by (rule calc_rate_runs)
  have val: "rate_of_final_states rhos rhos_2 rhos_4 =
           Inr (npfloat_div_pos
                  (npfloat_sub (np_log (spec_l1_distance (last rhos_4) (last rhos_2)))
                               (np_log (spec_l1_distance (last rhos_2) (last rhos))))
                  (ln 2))"
    using assms(8-12) by (rule rate_of_final_states_value)
  have pos: "0 < spec_l1_distance x y" if "length x = length y" "x \<noteq> y" for x y
    using that spec_l1_distance_nonneg [of x y] spec_l1_distance_zero_iff [of x y]
    by (simp add: less_le)
  have same: "spec_l1_distance x x = 0" for x
    by (simp add: spec_l1_distance_def)
  show ?thesis
    using pos [OF assms(11)] pos [OF assms(12)]
    by (auto simp add: run val np_log_def same)
qed

theorem calc_rate_no_degeneracy_check_witness:
  "4 dvd (4::nat) \<and> length [0, 1, 2, 3, 4::real] = 4 + 1 \<and>
   length [1, 1, 1, 1::real] = 4 \<and> length [2, 2, 2, 2::real] = 4 \<and>
   calc_rate (\<lambda>g n. (replicate n 0, g)) () (\<lambda>r t u v. Inr (map (\<lambda>s. r) t)) [1, 0::real]
       [0, 1, 2, 3, 4] (Some [1, 1, 1, 1]) (Some [2, 2, 2, 2])
     = (Inr NaN, ())"
  using calc_rate_no_degeneracy_check [of 4 "[0, 1, 2, 3, 4]" "[1, 1, 1, 1]" "[2, 2, 2, 2]"
      "\<lambda>r t u v. Inr (map (\<lambda>s. r) t)" "[1, 0::real]"
      "[[1, 0], [1, 0], [1, 0], [1, 0], [1, 0]]" "[[1, 0], [1, 0], [1, 0]]" "[[1, 0], [1, 0]]"
      "\<lambda>g n. (replicate n 0, g)" "()"]
  by (simp add: spec_coarse_times_def upt_rec)

text \<open>
  The claim as stated fails for an integrator without drift and diffusion, whose
  trajectory stays at the initial state: the three final states coincide, and
  \<open>calc_rate\<close> returns \<open>nan\<close> instead of reporting an error.
\<close>

theorem calc_rate_degenerate_counterexample:
  "calc_rate (\<lambda>g n. (replicate n 0, g)) () (\<lambda>r t u v. Inr (map (\<lambda>s. r) t)) [1, 0::real]
       [0, 1, 2, 3, 4] (Some [1, 1, 1, 1]) (Some [2, 2, 2, 2])
     = (Inr NaN, ()) \<and>
   \<not> (\<exists>e. fst (calc_rate (\<lambda>g n. (replicate n 0, g)) () (\<lambda>r t u v. Inr (map (\<lambda>s. r) t))
               [1, 0::real] [0, 1, 2, 3, 4] (Some [1, 1, 1, 1]) (Some [2, 2, 2, 2])) = Inl e)"
proof -
  have r: "rate_of_final_states [[1, 0], [1, 0], [1, 0], [1, 0], [1, 0]]
        [[1, 0], [1, 0], [1, 0]] [[1, 0], [1, 0]]
      = Inr NaN"
    by (simp add: rate_of_final_states_def py_last_def np_sub_def np_elementwise_def
        l1_norm_def np_log_def)
  have "calc_rate (\<lambda>g n. (replicate n 0, g)) () (\<lambda>r t u v. Inr (map (\<lambda>s. r) t)) [1, 0::real]
       [0, 1, 2, 3, 4] (Some [1, 1, 1, 1]) (Some [2, 2, 2, 2])
     = (rate_of_final_states [[1, 0], [1, 0], [1, 0], [1, 0], [1, 0]]
        [[1, 0], [1, 0], [1, 0]] [[1, 0], [1, 0]], ())"
    by (rule calc_rate_runs [of 4]) (simp_all add: spec_coarse_times_def upt_rec)
  then show ?thesis by (simp add: r)
qed

section \<open>Properties of the integrators' interfaces\<close>

text \<open>
  Claim C10. \<open>MilsteinHomodyneIntegrator.integrate\<close> does not depend on its argument
  \<open>U2s\<close>: for every initial state, time grid and \<open>U1s\<close> (supplied, or drawn from the
  same generator state), any two values of \<open>U2s\<close> give the same trajectory (or the same
  exception) and leave the generator in the same state.
\<close>

theorem Milstein_integrate_ignores_U2s:
  "Milstein_integrate randn vectorize milstein self g rho_0 tms U1s U2s =
   Milstein_integrate randn vectorize milstein self g rho_0 tms U1s U2s'"
  by (simp add: Milstein_integrate_def)

section \<open>Linear algebra on lists\<close>

lemma dot_sum: "length a = length b \<Longrightarrow> dot a b = (\<Sum>i<length a. a ! i * b ! i)"
  by (simp add: dot_def sum_list_sum_nth atLeast0LessThan)

lemma is_mat_nth: "is_mat r c M \<Longrightarrow> i < r \<Longrightarrow> length (M ! i) = c"
  by (simp add: is_mat_def list_all_length)

lemma is_mat_length: "is_mat r c M \<Longrightarrow> length M = r"
  by (simp add: is_mat_def)

lemma ncols_square: "is_mat n n M \<Longrightarrow> ncols M = n"
  by (cases M) (simp_all add: is_mat_def ncols_def)

lemma is_mat_map_upt: "is_mat r c (map (\<lambda>i. map (f i) [0..<c]) [0..<r])"
  by (simp add: is_mat_def list_all_iff)

lemma np_dot_vv_ok: "length a = length b \<Longrightarrow> np_dot_vv a b = Inr (dot a b)"
  by (simp add: np_dot_vv_def)

lemma np_dot_mv_ok: "is_mat n n M \<Longrightarrow> length v = n \<Longrightarrow> np_dot_mv M v = Inr (mv M v)"
  by (simp add: np_dot_mv_def mv_def ncols_square is_mat_length)

lemma length_mv: "length (mv M v) = length M"
  by (simp add: mv_def)

lemma mv_nth: "i < length M \<Longrightarrow> mv M v ! i = dot (M ! i) v"
  by (simp add: mv_def)

lemma np_add_ok: "length x = length y \<Longrightarrow> np_add x y = Inr (vadd x y)"
  by (simp add: np_add_def np_elementwise_def vadd_def)

lemma length_vadd: "length (vadd x y) = min (length x) (length y)"
  by (simp add: vadd_def)

lemma vadd_nth: "i < length x \<Longrightarrow> i < length y \<Longrightarrow> vadd x y ! i = x ! i + y ! i"
  by (simp add: vadd_def)

lemma length_np_scale: "length (np_scale c x) = length x"
  by (simp add: np_scale_def)

lemma np_scale_nth: "i < length x \<Longrightarrow> np_scale c x ! i = c * x ! i"
  by (simp add: np_scale_def)

lemma is_mat_scale: "is_mat r c M \<Longrightarrow> is_mat r c (np_scale_mat a M)"
  by (simp add: is_mat_def np_scale_mat_def list_all_iff)

lemma scale_mat_nth:
  "is_mat r c M \<Longrightarrow> i < r \<Longrightarrow> j < c \<Longrightarrow> np_scale_mat a M ! i ! j = a * M ! i ! j"
  by (simp add: is_mat_def np_scale_mat_def list_all_length)

lemma np_add_mat_ok:
  assumes "is_mat n n A" "is_mat n n B"
  shows "np_add_mat A B = Inr (map (\<lambda>i. map (\<lambda>j. A ! i ! j + B ! i ! j) [0..<n]) [0..<n])"
proof -
  have l: "length A = n" "length B = n" "ncols A = n" "ncols B = n"
    using assms by (simp_all add: is_mat_length ncols_square)
  show ?thesis
  proof (cases "n = 1")
    case True
    then show ?thesis using assms l by (simp add: np_add_mat_def)
  next
    case False
    then show ?thesis using assms l by (simp add: np_add_mat_def)
  qed
qed

lemma dot_add_scaled_rows:
  assumes "length v = n"
  shows "dot (map (\<lambda>j. f j + g j) [0..<n]) v
       = dot (map f [0..<n]) v + dot (map g [0..<n]) v"
  using assms by (simp add: dot_sum algebra_simps sum.distrib)

lemma row_as_map: "length r = n \<Longrightarrow> map (\<lambda>j. r ! j) [0..<n] = r"
  using map_nth [of r] by auto

lemma mv_add_mat:
  assumes "is_mat n n A" "is_mat n n B" "length v = n"
  shows "mv (map (\<lambda>i. map (\<lambda>j. A ! i ! j + B ! i ! j) [0..<n]) [0..<n]) v = vadd (mv A v) (mv B v)"
proof (rule nth_equalityI)
  show "length (mv (map (\<lambda>i. map (\<lambda>j. A ! i ! j + B ! i ! j) [0..<n]) [0..<n]) v)
      = length (vadd (mv A v) (mv B v))"
    using assms by (simp add: length_mv length_vadd is_mat_length)
next
  fix i assume "i < length (mv (map (\<lambda>i. map (\<lambda>j. A ! i ! j + B ! i ! j) [0..<n]) [0..<n]) v)"
  then have i: "i < n" by (simp add: length_mv)
  have la: "length (A ! i) = n" and lb: "length (B ! i) = n"
    using assms i by (simp_all add: is_mat_nth)
  have "dot (map (\<lambda>j. A ! i ! j + B ! i ! j) [0..<n]) v = dot (A ! i) v + dot (B ! i) v"
    using dot_add_scaled_rows [OF assms(3), of "\<lambda>j. A ! i ! j" "\<lambda>j. B ! i ! j"]
    by (simp add: row_as_map la lb)
  then show "mv (map (\<lambda>i. map (\<lambda>j. A ! i ! j + B ! i ! j) [0..<n]) [0..<n]) v ! i
      = vadd (mv A v) (mv B v) ! i"
    using i assms by (simp add: mv_nth vadd_nth length_mv is_mat_length)
qed

lemma mv_scale_mat:
  assumes "is_mat n n M" "length v = n"
  shows "mv (np_scale_mat c M) v = np_scale c (mv M v)"
proof (rule nth_equalityI)
  show "length (mv (np_scale_mat c M) v) = length (np_scale c (mv M v))"
    by (simp add: length_mv length_np_scale np_scale_mat_def)
next
  fix i assume "i < length (mv (np_scale_mat c M) v)"
  then have i: "i < length M" by (simp add: length_mv np_scale_mat_def)
  then have l: "length (M ! i) = n" using assms by (simp add: is_mat_def list_all_length)
  have "dot (map (\<lambda>x. c * x) (M ! i)) v = c * dot (M ! i) v"
    using l assms(2) by (simp add: dot_sum sum_distrib_left algebra_simps)
  then show "mv (np_scale_mat c M) v ! i = np_scale c (mv M v) ! i"
    using i by (simp add: mv_nth np_scale_nth length_mv np_scale_mat_def)
qed


lemma add_scaled_mat:
  assumes "is_mat n n A" "is_mat n n B" "length v = n"
  shows "\<exists>M. np_add_mat A (np_scale_mat c B) = Inr M \<and> is_mat n n M \<and>
             mv M v = vadd (mv A v) (np_scale c (mv B v))"
proof -
  let ?B = "np_scale_mat c B"
  let ?M = "map (\<lambda>i. map (\<lambda>j. A ! i ! j + ?B ! i ! j) [0..<n]) [0..<n]"
  have b: "is_mat n n ?B" using assms(2) by (rule is_mat_scale)
  have 1: "np_add_mat A ?B = Inr ?M" using assms(1) b by (rule np_add_mat_ok)
  have 2: "is_mat n n ?M" by (rule is_mat_map_upt)
  have "mv ?M v = vadd (mv A v) (mv ?B v)" using assms(1) b assms(3) by (rule mv_add_mat)
  also have "mv ?B v = np_scale c (mv B v)" using assms(2,3) by (rule mv_scale_mat)
  finally have 3: "mv ?M v = vadd (mv A v) (np_scale c (mv B v))" .
  from 1 2 3 show ?thesis by blast
qed

lemma vadd_assoc: "vadd (vadd x y) z = vadd x (vadd y z)"
proof (rule nth_equalityI)
  show "length (vadd (vadd x y) z) = length (vadd x (vadd y z))"
    by (simp add: length_vadd)
next
  fix i assume "i < length (vadd (vadd x y) z)"
  then show "vadd (vadd x y) z ! i = vadd x (vadd y z) ! i"
    by (simp add: length_vadd vadd_nth)
qed

lemma b_dx_b_ok:
  assumes "length rho = n" "length k = n" "length kG = n" "is_mat n n Gm" "is_mat n n G2m"
  shows "b_dx_b G2m kG Gm k rho = Inr (spec_b_dx_b G2m kG Gm k rho)"
proof -
  obtain M where M: "np_add_mat G2m (np_scale_mat (2 * dot k rho) Gm) = Inr M" "is_mat n n M"
      "mv M rho = vadd (mv G2m rho) (np_scale (2 * dot k rho) (mv Gm rho))"
    using add_scaled_mat [OF assms(5,4,1)] by blast
  have l: "length (np_scale (dot kG rho + 2 * (dot k rho)\<^sup>2) rho) = length (mv M rho)"
    using assms(1) M(2) by (simp add: length_np_scale length_mv is_mat_length)
  have "b_dx_b G2m kG Gm k rho
      = Inr (vadd (np_scale (dot kG rho + 2 * (dot k rho)\<^sup>2) rho) (mv M rho))"
    using assms(1-3) M(1,2) l
    by (simp add: b_dx_b_def np_dot_vv_ok np_dot_mv_ok np_add_ok)
  then show ?thesis by (simp add: M(3) spec_b_dx_b_def vadd_assoc)
qed

lemma a_dx_b_ok:
  assumes "length rho = n" "length k = n" "length kQ = n" "is_mat n n Qm" "is_mat n n GQm"
  shows "a_dx_b GQm k Qm kQ rho =
           Inr (np_add_scalar (vadd (mv GQm rho) (np_scale (dot k rho) (mv Qm rho)))
                  (dot kQ rho))"
proof -
  obtain M where M: "np_add_mat GQm (np_scale_mat (dot k rho) Qm) = Inr M" "is_mat n n M"
      "mv M rho = vadd (mv GQm rho) (np_scale (dot k rho) (mv Qm rho))"
    using add_scaled_mat [OF assms(5,4,1)] by blast
  show ?thesis
    using assms(1-3) M(1,2)
    by (simp add: a_dx_b_def np_dot_vv_ok np_dot_mv_ok M(3))
qed

lemma b_dx_b_dx_b_ok:
  assumes "length rho = n" "length k = n" "length kG = n" "length kG2 = n"
    "is_mat n n Gm" "is_mat n n G2m" "is_mat n n G3m"
  shows "b_dx_b_dx_b G3m G2m Gm k kG kG2 rho =
           Inr (vadd (vadd (vadd (mv G3m rho) (np_scale (3 * dot k rho) (mv G2m rho)))
                           (np_scale (3 * (dot kG rho + 2 * dot k rho)) (mv Gm rho)))
                     (np_scale (dot kG2 rho + 6 * dot k rho * dot kG rho + 6 * (dot k rho) ^ 3)
                        rho))"
proof -
  obtain M1 where M1: "np_add_mat G3m (np_scale_mat (3 * dot k rho) G2m) = Inr M1"
      "is_mat n n M1"
      "mv M1 rho = vadd (mv G3m rho) (np_scale (3 * dot k rho) (mv G2m rho))"
    using add_scaled_mat [OF assms(7,6,1)] by blast
  obtain M where M: "np_add_mat M1 (np_scale_mat (3 * (dot kG rho + 2 * dot k rho)) Gm) = Inr M"
      "is_mat n n M"
      "mv M rho = vadd (mv M1 rho) (np_scale (3 * (dot kG rho + 2 * dot k rho)) (mv Gm rho))"
    using add_scaled_mat [OF M1(2) assms(5,1)] by blast
  have l: "length (mv M rho) =
      length (np_scale (dot kG2 rho + 6 * dot k rho * dot kG rho + 6 * (dot k rho) ^ 3) rho)"
    using assms(1) M(2) by (simp add: length_np_scale length_mv is_mat_length)
  have "b_dx_b_dx_b G3m G2m Gm k kG kG2 rho =
      Inr (vadd (mv M rho)
             (np_scale (dot kG2 rho + 6 * dot k rho * dot kG rho + 6 * (dot k rho) ^ 3) rho))"
    using assms(1-4) M1(1) M(1,2) l
    by (simp add: b_dx_b_dx_b_def np_dot_vv_ok np_dot_mv_ok np_add_ok)
  then show ?thesis by (simp add: M(3) M1(3))
qed

lemma diffusion_ok:
  assumes "length rho = n" "length k = n" "is_mat n n Gm"
  shows "diffusion k Gm rho = Inr (vadd (np_scale (dot k rho) rho) (mv Gm rho))"
  using assms
  by (simp add: diffusion_def np_dot_vv_ok np_dot_mv_ok np_add_ok length_np_scale length_mv
      is_mat_length)

lemma drift_ok:
  assumes "length rho = n" "is_mat n n Qm"
  shows "drift Qm rho = Inr (mv Qm rho)"
  using assms by (simp add: drift_def np_dot_mv_ok)


lemma dot_column:
  assumes "length a = n" "is_mat n n M"
  shows "dot a (column M j) = (\<Sum>i<n. a ! i * M ! i ! j)"
proof -
  have l: "length (column M j) = n" using assms(2) by (simp add: column_def is_mat_length)
  have "dot a (column M j) = (\<Sum>i<n. a ! i * column M j ! i)"
    using assms(1) l by (simp add: dot_sum)
  also have "\<dots> = (\<Sum>i<n. a ! i * M ! i ! j)"
    using assms(2) by (intro sum.cong) (simp_all add: column_def is_mat_length)
  finally show ?thesis .
qed

lemma dot_vm_assoc:
  assumes "length a = n" "is_mat n n M" "length v = n"
  shows "dot (map (\<lambda>j. dot a (column M j)) [0..<n]) v = dot a (mv M v)"
proof -
  have "dot (map (\<lambda>j. dot a (column M j)) [0..<n]) v
      = (\<Sum>j<n. dot a (column M j) * v ! j)"
    using assms(3) by (simp add: dot_sum)
  also have "\<dots> = (\<Sum>j<n. \<Sum>i<n. a ! i * M ! i ! j * v ! j)"
    by (simp add: dot_column [OF assms(1,2)] sum_distrib_right)
  also have "\<dots> = (\<Sum>i<n. \<Sum>j<n. a ! i * M ! i ! j * v ! j)"
    by (rule sum.swap)
  also have "\<dots> = (\<Sum>i<n. a ! i * (\<Sum>j<n. M ! i ! j * v ! j))"
    by (simp add: sum_distrib_left mult.assoc)
  also have "\<dots> = (\<Sum>i<n. a ! i * mv M v ! i)"
  proof (rule sum.cong)
    fix i assume "i \<in> {..<n}"
    then have i: "i < n" by simp
    then have "length (M ! i) = n" using assms(2) by (simp add: is_mat_nth)
    then have "dot (M ! i) v = (\<Sum>j<n. M ! i ! j * v ! j)"
      using assms(3) by (simp add: dot_sum)
    then show "a ! i * (\<Sum>j<n. M ! i ! j * v ! j) = a ! i * mv M v ! i"
      using i assms(2) by (simp add: mv_nth is_mat_length)
  qed simp
  also have "\<dots> = dot a (mv M v)"
    using assms(1,2) by (simp add: dot_sum length_mv is_mat_length)
  finally show ?thesis .
qed

lemma np_dot_vm_product:
  assumes "length a = n" "is_mat n n M" "np_dot_vm a M = Inr aM"
  shows "length aM = n" and "length v = n \<Longrightarrow> dot aM v = dot a (mv M v)"
proof -
  have aM: "aM = map (\<lambda>j. dot a (column M j)) [0..<n]"
    using assms by (simp add: np_dot_vm_def ncols_square split: if_splits)
  show "length aM = n" by (simp add: aM)
  show "length v = n \<Longrightarrow> dot aM v = dot a (mv M v)"
    unfolding aM using assms(1,2) by (rule dot_vm_assoc)
qed

lemma np_dot_mm_product:
  assumes "is_mat n n A" "is_mat n n B" "np_dot_mm A B = Inr AB"
  shows "is_mat n n AB" and "length v = n \<Longrightarrow> mv AB v = mv A (mv B v)"
proof -
  have AB: "AB = map (\<lambda>row. map (\<lambda>j. dot row (column B j)) [0..<n]) A"
    using assms by (simp add: np_dot_mm_def ncols_square is_mat_length split: if_splits)
  show "is_mat n n AB"
    using assms(1) by (simp add: AB is_mat_def list_all_iff)
  show "mv AB v = mv A (mv B v)" if v: "length v = n"
  proof (rule nth_equalityI)
    show "length (mv AB v) = length (mv A (mv B v))" by (simp add: AB length_mv)
  next
    fix i assume "i < length (mv AB v)"
    then have i: "i < length A" by (simp add: AB length_mv)
    then have la: "length (A ! i) = n" using assms(1) by (simp add: is_mat_def list_all_length)
    have "dot (map (\<lambda>j. dot (A ! i) (column B j)) [0..<n]) v = dot (A ! i) (mv B v)"
      using la assms(2) v by (rule dot_vm_assoc)
    then show "mv AB v ! i = mv A (mv B v) ! i"
      using i by (simp add: AB mv_nth)
  qed
qed

lemma np_dot_vm_exists:
  assumes "length a = n" "is_mat n n M"
  shows "\<exists>aM. np_dot_vm a M = Inr aM"
  using assms by (simp add: np_dot_vm_def ncols_square)

lemma np_dot_mm_exists:
  assumes "is_mat n n A" "is_mat n n B"
  shows "\<exists>AB. np_dot_mm A B = Inr AB"
  using assms by (simp add: np_dot_mm_def ncols_square is_mat_length)


section \<open>Fields along a line\<close>

lemma length_line_point:
  "length v = length rho \<Longrightarrow> length (line_point rho v t) = length rho"
  by (simp add: line_point_def)

lemma line_point_nth:
  "length v = length rho \<Longrightarrow> i < length rho \<Longrightarrow> line_point rho v t ! i = rho ! i + t * v ! i"
  by (simp add: line_point_def)

lemma dot_line_point:
  assumes "length a = n" "length rho = n" "length v = n"
  shows "dot a (line_point rho v t) = dot a rho + t * dot a v"
proof -
  have "dot a (line_point rho v t) = (\<Sum>i<n. a ! i * (rho ! i + t * v ! i))"
    using assms by (simp add: dot_sum length_line_point line_point_nth)
  also have "\<dots> = (\<Sum>i<n. a ! i * rho ! i) + t * (\<Sum>i<n. a ! i * v ! i)"
    by (simp add: algebra_simps sum.distrib sum_distrib_left)
  finally show ?thesis using assms by (simp add: dot_sum)
qed

lemma mv_line_point_nth:
  assumes "is_mat n n M" "length rho = n" "length v = n" "i < n"
  shows "mv M (line_point rho v t) ! i = mv M rho ! i + t * mv M v ! i"
proof -
  have "length (M ! i) = n" using assms(1,4) by (rule is_mat_nth)
  then show ?thesis
    using assms by (simp add: mv_nth is_mat_length dot_line_point)
qed

lemma dot_vadd:
  assumes "length a = n" "length x = n" "length y = n"
  shows "dot a (vadd x y) = dot a x + dot a y"
  using assms by (simp add: dot_sum length_vadd vadd_nth algebra_simps sum.distrib)

lemma dot_np_scale:
  assumes "length a = n" "length x = n"
  shows "dot a (np_scale c x) = c * dot a x"
  using assms by (simp add: dot_sum length_np_scale np_scale_nth algebra_simps sum_distrib_left)

lemma mv_vadd_nth:
  assumes "is_mat n n M" "length x = n" "length y = n" "i < n"
  shows "mv M (vadd x y) ! i = mv M x ! i + mv M y ! i"
proof -
  have "length (M ! i) = n" using assms(1,4) by (rule is_mat_nth)
  then show ?thesis using assms by (simp add: mv_nth is_mat_length dot_vadd)
qed

lemma mv_np_scale_nth:
  assumes "is_mat n n M" "length x = n" "i < n"
  shows "mv M (np_scale c x) ! i = c * mv M x ! i"
proof -
  have "length (M ! i) = n" using assms(1,3) by (rule is_mat_nth)
  then show ?thesis using assms by (simp add: mv_nth is_mat_length dot_np_scale)
qed

lemma directional_derivativeI:
  assumes "length v = length rho" "length d = length rho"
    and "\<And>t. f (line_point rho v t) = Inr (F t)"
    and "\<And>t. length (F t) = length rho"
    and "\<And>i. i < length rho \<Longrightarrow> ((\<lambda>t. F t ! i) has_real_derivative d ! i) (at 0)"
  shows "directional_derivative f v rho d"
  unfolding directional_derivative_def using assms by blast

lemma directional_derivative_unique:
  assumes "directional_derivative f v rho d" "directional_derivative f v rho d'"
  shows "d = d'"
proof -
  from assms(1) obtain F where F: "\<And>t. f (line_point rho v t) = Inr (F t)"
      "\<And>i. i < length rho \<Longrightarrow> ((\<lambda>t. F t ! i) has_real_derivative d ! i) (at 0)"
    and l: "length d = length rho"
    unfolding directional_derivative_def by blast
  from assms(2) obtain F' where F': "\<And>t. f (line_point rho v t) = Inr (F' t)"
      "\<And>i. i < length rho \<Longrightarrow> ((\<lambda>t. F' t ! i) has_real_derivative d' ! i) (at 0)"
    and l': "length d' = length rho"
    unfolding directional_derivative_def by blast
  have "F t = F' t" for t using F(1) [of t] F'(1) [of t] by simp
  then have eq: "F = F'" by (rule ext)
  show ?thesis
  proof (rule nth_equalityI)
    show "length d = length d'" by (simp add: l l')
  next
    fix i assume "i < length d"
    then have i: "i < length rho" by (simp add: l)
    from F(2) [OF i] F'(2) [OF i] show "d ! i = d' ! i"
      unfolding eq by (rule DERIV_unique)
  qed
qed

lemma diffusion_directional:
  assumes "length rho = n" "length v = n" "length k = n" "is_mat n n Gm"
  shows "directional_derivative (diffusion k Gm) v rho
           (vadd (vadd (np_scale (dot k v) rho) (np_scale (dot k rho) v)) (mv Gm v))"
proof (rule directional_derivativeI)
  let ?F = "\<lambda>t. vadd (np_scale (dot k (line_point rho v t)) (line_point rho v t))
                    (mv Gm (line_point rho v t))"
  show "length v = length rho" using assms by simp
  show "length (vadd (vadd (np_scale (dot k v) rho) (np_scale (dot k rho) v)) (mv Gm v))
      = length rho"
    using assms by (simp add: length_vadd length_np_scale length_mv is_mat_length)
  show "diffusion k Gm (line_point rho v t) = Inr (?F t)" for t
    using assms by (intro diffusion_ok [of _ n]) (simp_all add: length_line_point)
  show "length (?F t) = length rho" for t
    using assms by (simp add: length_vadd length_np_scale length_mv is_mat_length
        length_line_point)
  fix i assume "i < length rho"
  then have i: "i < n" using assms by simp
  have F: "?F t ! i = (dot k rho + t * dot k v) * (rho ! i + t * v ! i)
                      + (mv Gm rho ! i + t * mv Gm v ! i)" for t
    using assms i
    by (simp add: vadd_nth np_scale_nth length_np_scale length_mv is_mat_length
        length_line_point line_point_nth dot_line_point [of k n] mv_line_point_nth [of n])
  have d: "vadd (vadd (np_scale (dot k v) rho) (np_scale (dot k rho) v)) (mv Gm v) ! i
      = dot k v * rho ! i + dot k rho * v ! i + mv Gm v ! i"
    using assms i
    by (simp add: vadd_nth np_scale_nth length_np_scale length_mv is_mat_length length_vadd)
  have "((\<lambda>t. (dot k rho + t * dot k v) * (rho ! i + t * v ! i)
              + (mv Gm rho ! i + t * mv Gm v ! i))
         has_real_derivative (dot k v * rho ! i + dot k rho * v ! i + mv Gm v ! i)) (at 0)"
    by (auto intro!: derivative_eq_intros)
  then show "((\<lambda>t. ?F t ! i) has_real_derivative
       vadd (vadd (np_scale (dot k v) rho) (np_scale (dot k rho) v)) (mv Gm v) ! i) (at 0)"
    by (simp only: F d)
qed


lemma length_spec_b_dx_b:
  assumes "length rho = n" "is_mat n n Gm" "is_mat n n G2m"
  shows "length (spec_b_dx_b G2m kG Gm k rho) = n"
  using assms
  by (simp add: spec_b_dx_b_def length_vadd length_np_scale length_mv is_mat_length)

lemma spec_b_dx_b_nth:
  assumes "length rho = n" "is_mat n n Gm" "is_mat n n G2m" "i < n"
  shows "spec_b_dx_b G2m kG Gm k rho ! i =
           (dot kG rho + 2 * (dot k rho)\<^sup>2) * rho ! i + mv G2m rho ! i
           + 2 * dot k rho * mv Gm rho ! i"
  using assms
  by (simp add: spec_b_dx_b_def vadd_nth np_scale_nth length_vadd length_np_scale length_mv
      is_mat_length)

lemma b_dx_b_directional:
  assumes "length rho = n" "length v = n" "length k = n" "length kG = n"
    "is_mat n n Gm" "is_mat n n G2m"
  shows "directional_derivative (b_dx_b G2m kG Gm k) v rho (b_dx_b_along G2m kG Gm k rho v)"
proof (rule directional_derivativeI)
  let ?F = "\<lambda>t. spec_b_dx_b G2m kG Gm k (line_point rho v t)"
  show "length v = length rho" using assms by simp
  show "length (b_dx_b_along G2m kG Gm k rho v) = length rho"
    by (simp add: b_dx_b_along_def)
  show "b_dx_b G2m kG Gm k (line_point rho v t) = Inr (?F t)" for t
    using assms by (intro b_dx_b_ok [of _ n]) (simp_all add: length_line_point)
  show "length (?F t) = length rho" for t
    using assms by (simp add: length_spec_b_dx_b [of _ n] length_line_point)
  fix i assume "i < length rho"
  then have i: "i < n" using assms by simp
  have F: "?F t ! i =
      (dot kG rho + t * dot kG v + 2 * (dot k rho + t * dot k v)\<^sup>2) * (rho ! i + t * v ! i)
      + (mv G2m rho ! i + t * mv G2m v ! i)
      + 2 * (dot k rho + t * dot k v) * (mv Gm rho ! i + t * mv Gm v ! i)" for t
    using assms i
    by (simp add: spec_b_dx_b_nth [of _ n] length_line_point line_point_nth
        dot_line_point [of _ n] mv_line_point_nth [of n])
  have d: "b_dx_b_along G2m kG Gm k rho v ! i =
      (dot kG v + 4 * dot k rho * dot k v) * rho ! i
      + (dot kG rho + 2 * (dot k rho)\<^sup>2) * v ! i
      + mv G2m v ! i + 2 * dot k v * mv Gm rho ! i + 2 * dot k rho * mv Gm v ! i"
    using assms i by (simp add: b_dx_b_along_def)
  have "((\<lambda>t. (dot kG rho + t * dot kG v + 2 * (dot k rho + t * dot k v)\<^sup>2)
                * (rho ! i + t * v ! i)
              + (mv G2m rho ! i + t * mv G2m v ! i)
              + 2 * (dot k rho + t * dot k v) * (mv Gm rho ! i + t * mv Gm v ! i))
         has_real_derivative
           ((dot kG v + 4 * dot k rho * dot k v) * rho ! i
            + (dot kG rho + 2 * (dot k rho)\<^sup>2) * v ! i
            + mv G2m v ! i + 2 * dot k v * mv Gm rho ! i + 2 * dot k rho * mv Gm v ! i)) (at 0)"
    by (auto intro!: derivative_eq_intros simp: algebra_simps)
  then show "((\<lambda>t. ?F t ! i) has_real_derivative b_dx_b_along G2m kG Gm k rho v ! i) (at 0)"
    by (simp only: F d)
qed


section \<open>Properties of the derivative terms\<close>

lemma diffusion_value:
  assumes "length rho = n" "length k = n" "is_mat n n Gm"
  defines "b \<equiv> vadd (np_scale (dot k rho) rho) (mv Gm rho)"
  shows "diffusion k Gm rho = Inr b" and "length b = n"
    and "\<And>i. i < n \<Longrightarrow> b ! i = dot k rho * rho ! i + mv Gm rho ! i"
    and "\<And>a. length a = n \<Longrightarrow> dot a b = dot k rho * dot a rho + dot a (mv Gm rho)"
    and "\<And>M i. is_mat n n M \<Longrightarrow> i < n \<Longrightarrow>
           mv M b ! i = dot k rho * mv M rho ! i + mv M (mv Gm rho) ! i"
proof -
  have l: "length (np_scale (dot k rho) rho) = n" "length (mv Gm rho) = n"
    using assms(1,3) by (simp_all add: length_np_scale length_mv is_mat_length)
  show "diffusion k Gm rho = Inr b" unfolding b_def using assms(1-3) by (rule diffusion_ok)
  show "length b = n" by (simp add: b_def length_vadd l)
  show "b ! i = dot k rho * rho ! i + mv Gm rho ! i" if "i < n" for i
    using that l assms(1) by (simp add: b_def vadd_nth np_scale_nth)
  show "dot a b = dot k rho * dot a rho + dot a (mv Gm rho)" if "length a = n" for a
    using that l assms(1) by (simp add: b_def dot_vadd [of a n] dot_np_scale [of a n])
  show "mv M b ! i = dot k rho * mv M rho ! i + mv M (mv Gm rho) ! i"
    if "is_mat n n M" "i < n" for M i
    using that l assms(1)
    by (simp add: b_def mv_vadd_nth [of n] mv_np_scale_nth [of n])
qed

lemma b_dx_b_derivative:
  assumes "length rho = n" "length k = n" "is_mat n n Gm"
    and "np_dot_mm Gm Gm = Inr G2m" "np_dot_vm k Gm = Inr kG"
  shows "\<exists>b. diffusion k Gm rho = Inr b \<and>
             b_dx_b G2m kG Gm k rho = Inr (spec_b_dx_b G2m kG Gm k rho) \<and>
             directional_derivative (diffusion k Gm) b rho (spec_b_dx_b G2m kG Gm k rho)"
proof -
  define b where "b = vadd (np_scale (dot k rho) rho) (mv Gm rho)"
  note bf = diffusion_value [OF assms(1-3), folded b_def]
  have G2: "is_mat n n G2m" and G2v: "\<And>x. length x = n \<Longrightarrow> mv G2m x = mv Gm (mv Gm x)"
    using np_dot_mm_product [OF assms(3,3,4)] by simp_all
  have kG: "length kG = n" and kGv: "\<And>x. length x = n \<Longrightarrow> dot kG x = dot k (mv Gm x)"
    using np_dot_vm_product [OF assms(2,3,5)] by simp_all
  have code: "b_dx_b G2m kG Gm k rho = Inr (spec_b_dx_b G2m kG Gm k rho)"
    using assms(1,2) kG assms(3) G2 by (rule b_dx_b_ok)
  have eq: "vadd (vadd (np_scale (dot k b) rho) (np_scale (dot k rho) b)) (mv Gm b)
      = spec_b_dx_b G2m kG Gm k rho"
  proof (rule nth_equalityI)
    show "length (vadd (vadd (np_scale (dot k b) rho) (np_scale (dot k rho) b)) (mv Gm b))
        = length (spec_b_dx_b G2m kG Gm k rho)"
      using assms(1,3) G2 bf(2)
      by (simp add: length_spec_b_dx_b [of _ n] length_vadd length_np_scale length_mv
          is_mat_length)
  next
    fix i
    assume "i < length (vadd (vadd (np_scale (dot k b) rho) (np_scale (dot k rho) b)) (mv Gm b))"
    then have i: "i < n"
      using assms(1,3) bf(2) by (simp add: length_vadd length_np_scale length_mv is_mat_length)
    have lhs: "vadd (vadd (np_scale (dot k b) rho) (np_scale (dot k rho) b)) (mv Gm b) ! i
        = dot k b * rho ! i + dot k rho * b ! i + mv Gm b ! i"
      using i assms(1,3) bf(2)
      by (simp add: vadd_nth np_scale_nth length_vadd length_np_scale length_mv is_mat_length)
    have 1: "dot k b = (dot k rho)\<^sup>2 + dot kG rho"
      using bf(4) [OF assms(2)] kGv [OF assms(1)] by (simp add: power2_eq_square)
    have 2: "mv Gm b ! i = dot k rho * mv Gm rho ! i + mv G2m rho ! i"
      using bf(5) [OF assms(3) i] G2v [OF assms(1)] by simp
    note lhs
    also have "dot k b * rho ! i + dot k rho * b ! i + mv Gm b ! i
        = ((dot k rho)\<^sup>2 + dot kG rho) * rho ! i
          + dot k rho * (dot k rho * rho ! i + mv Gm rho ! i)
          + (dot k rho * mv Gm rho ! i + mv G2m rho ! i)"
      by (simp only: 1 2 bf(3) [OF i])
    also have "\<dots> = spec_b_dx_b G2m kG Gm k rho ! i"
      unfolding spec_b_dx_b_nth [OF assms(1,3) G2 i]
      by (simp add: algebra_simps power2_eq_square)
    finally show "vadd (vadd (np_scale (dot k b) rho) (np_scale (dot k rho) b)) (mv Gm b) ! i
        = spec_b_dx_b G2m kG Gm k rho ! i" .
  qed
  have "directional_derivative (diffusion k Gm) b rho
      (vadd (vadd (np_scale (dot k b) rho) (np_scale (dot k rho) b)) (mv Gm b))"
    using assms(1) bf(2) assms(2,3) by (rule diffusion_directional)
  then have "directional_derivative (diffusion k Gm) b rho (spec_b_dx_b G2m kG Gm k rho)"
    by (simp only: eq)
  with bf(1) code show ?thesis by blast
qed


lemma length_spec_a_dx_b:
  assumes "length rho = n" "is_mat n n Qm" "is_mat n n GQm"
  shows "length (spec_a_dx_b GQm k Qm kQ rho) = n"
  using assms
  by (simp add: spec_a_dx_b_def length_vadd length_np_scale length_mv is_mat_length)

lemma spec_a_dx_b_nth:
  assumes "length rho = n" "is_mat n n Qm" "is_mat n n GQm" "i < n"
  shows "spec_a_dx_b GQm k Qm kQ rho ! i =
           mv GQm rho ! i + dot k rho * mv Qm rho ! i + dot kQ rho * rho ! i"
  using assms
  by (simp add: spec_a_dx_b_def vadd_nth np_scale_nth length_vadd length_np_scale length_mv
      is_mat_length)

lemma spec_a_dx_b_derivative:
  assumes "length rho = n" "length k = n" "is_mat n n Gm" "is_mat n n Qm"
    and "np_dot_mm Gm Qm = Inr GQm" "np_dot_vm k Qm = Inr kQ"
  shows "\<exists>a. drift Qm rho = Inr a \<and>
             directional_derivative (diffusion k Gm) a rho (spec_a_dx_b GQm k Qm kQ rho)"
proof -
  define a where "a = mv Qm rho"
  have a: "drift Qm rho = Inr a" unfolding a_def using assms(1,4) by (rule drift_ok)
  have la: "length a = n" using assms(4) by (simp add: a_def length_mv is_mat_length)
  have GQ: "is_mat n n GQm" and GQv: "mv GQm rho = mv Gm a"
    using np_dot_mm_product [OF assms(3,4,5)] assms(1) by (simp_all add: a_def)
  have kQv: "dot kQ rho = dot k a"
    using np_dot_vm_product(2) [OF assms(2,4,6) assms(1)] by (simp add: a_def)
  have eq: "vadd (vadd (np_scale (dot k a) rho) (np_scale (dot k rho) a)) (mv Gm a)
      = spec_a_dx_b GQm k Qm kQ rho"
  proof (rule nth_equalityI)
    show "length (vadd (vadd (np_scale (dot k a) rho) (np_scale (dot k rho) a)) (mv Gm a))
        = length (spec_a_dx_b GQm k Qm kQ rho)"
      using assms(1,3,4) GQ la
      by (simp add: length_spec_a_dx_b [of _ n] length_vadd length_np_scale length_mv
          is_mat_length)
  next
    fix i
    assume "i < length (vadd (vadd (np_scale (dot k a) rho) (np_scale (dot k rho) a)) (mv Gm a))"
    then have i: "i < n"
      using assms(1,3) la by (simp add: length_vadd length_np_scale length_mv is_mat_length)
    have "vadd (vadd (np_scale (dot k a) rho) (np_scale (dot k rho) a)) (mv Gm a) ! i
        = dot k a * rho ! i + dot k rho * a ! i + mv Gm a ! i"
      using i assms(1,3) la
      by (simp add: vadd_nth np_scale_nth length_vadd length_np_scale length_mv is_mat_length)
    also have "\<dots> = spec_a_dx_b GQm k Qm kQ rho ! i"
      unfolding spec_a_dx_b_nth [OF assms(1,4) GQ i] GQv kQv
      by (simp add: a_def)
    finally show "vadd (vadd (np_scale (dot k a) rho) (np_scale (dot k rho) a)) (mv Gm a) ! i
        = spec_a_dx_b GQm k Qm kQ rho ! i" .
  qed
  have "directional_derivative (diffusion k Gm) a rho
      (vadd (vadd (np_scale (dot k a) rho) (np_scale (dot k rho) a)) (mv Gm a))"
    using assms(1) la assms(2,3) by (rule diffusion_directional)
  then have "directional_derivative (diffusion k Gm) a rho (spec_a_dx_b GQm k Qm kQ rho)"
    by (simp only: eq)
  with a show ?thesis by blast
qed

lemma length_spec_b_dx_b_dx_b:
  assumes "length rho = n" "is_mat n n Gm" "is_mat n n G2m" "is_mat n n G3m"
  shows "length (spec_b_dx_b_dx_b G3m G2m Gm k kG kG2 rho) = n"
  using assms
  by (simp add: spec_b_dx_b_dx_b_def length_vadd length_np_scale length_mv is_mat_length)

lemma spec_b_dx_b_dx_b_nth:
  assumes "length rho = n" "is_mat n n Gm" "is_mat n n G2m" "is_mat n n G3m" "i < n"
  shows "spec_b_dx_b_dx_b G3m G2m Gm k kG kG2 rho ! i =
           mv G3m rho ! i + 3 * dot k rho * mv G2m rho ! i
           + 3 * (dot kG rho + 2 * (dot k rho)\<^sup>2) * mv Gm rho ! i
           + (dot kG2 rho + 6 * dot k rho * dot kG rho + 6 * (dot k rho) ^ 3) * rho ! i"
  using assms
  by (simp add: spec_b_dx_b_dx_b_def vadd_nth np_scale_nth length_vadd length_np_scale
      length_mv is_mat_length)

lemma spec_b_dx_b_dx_b_derivative:
  assumes "length rho = n" "length k = n" "is_mat n n Gm"
    and "np_dot_mm Gm Gm = Inr G2m" "np_dot_mm G2m Gm = Inr G3m"
    and "np_dot_vm k Gm = Inr kG" "np_dot_vm k G2m = Inr kG2"
  shows "\<exists>b. diffusion k Gm rho = Inr b \<and>
             directional_derivative (b_dx_b G2m kG Gm k) b rho
               (spec_b_dx_b_dx_b G3m G2m Gm k kG kG2 rho)"
proof -
  define b where "b = vadd (np_scale (dot k rho) rho) (mv Gm rho)"
  note bf = diffusion_value [OF assms(1-3), folded b_def]
  have G2: "is_mat n n G2m" and G2v: "\<And>x. length x = n \<Longrightarrow> mv G2m x = mv Gm (mv Gm x)"
    using np_dot_mm_product [OF assms(3,3,4)] by simp_all
  have G3: "is_mat n n G3m" and G3v: "\<And>x. length x = n \<Longrightarrow> mv G3m x = mv G2m (mv Gm x)"
    using np_dot_mm_product [OF G2 assms(3,5)] by simp_all
  have kG: "length kG = n" and kGv: "\<And>x. length x = n \<Longrightarrow> dot kG x = dot k (mv Gm x)"
    using np_dot_vm_product [OF assms(2,3,6)] by simp_all
  have kG2v: "\<And>x. length x = n \<Longrightarrow> dot kG2 x = dot k (mv G2m x)"
    using np_dot_vm_product [OF assms(2) G2 assms(7)] by simp
  have lq: "length (mv Gm rho) = n" using assms(3) by (simp add: length_mv is_mat_length)
  define s where "s = dot k rho"
  define g where "g = dot kG rho"
  define h where "h = dot kG2 rho"
  have eq: "b_dx_b_along G2m kG Gm k rho b = spec_b_dx_b_dx_b G3m G2m Gm k kG kG2 rho"
  proof (rule nth_equalityI)
    show "length (b_dx_b_along G2m kG Gm k rho b)
        = length (spec_b_dx_b_dx_b G3m G2m Gm k kG kG2 rho)"
      using assms(1,3) G2 G3
      by (simp add: length_spec_b_dx_b_dx_b [of _ n] b_dx_b_along_def)
  next
    fix i assume "i < length (b_dx_b_along G2m kG Gm k rho b)"
    then have i: "i < n" using assms(1) by (simp add: b_dx_b_along_def)
    define x where "x = rho ! i"
    define q where "q = mv Gm rho ! i"
    define p where "p = mv G2m rho ! i"
    define r where "r = mv G3m rho ! i"
    have 1: "dot k b = s * s + g"
      using bf(4) [OF assms(2)] kGv [OF assms(1)] by (simp add: s_def g_def)
    have 2: "dot kG b = s * g + h"
      using bf(4) [OF kG] kGv [OF lq] kG2v [OF assms(1)] G2v [OF assms(1)]
      by (simp add: s_def g_def h_def)
    have 3: "b ! i = s * x + q"
      using bf(3) [OF i] by (simp add: s_def x_def q_def)
    have 4: "mv Gm b ! i = s * q + p"
      using bf(5) [OF assms(3) i] G2v [OF assms(1)] by (simp add: s_def q_def p_def)
    have 5: "mv G2m b ! i = s * p + r"
      using bf(5) [OF G2 i] G3v [OF assms(1)] by (simp add: s_def p_def r_def)
    have "b_dx_b_along G2m kG Gm k rho b ! i =
        (dot kG b + 4 * s * dot k b) * x + (g + 2 * s\<^sup>2) * b ! i
        + mv G2m b ! i + 2 * dot k b * q + 2 * s * mv Gm b ! i"
      using i assms(1) by (simp add: b_dx_b_along_def s_def g_def x_def q_def)
    also have "\<dots> = (s * g + h + 4 * s * (s * s + g)) * x + (g + 2 * s\<^sup>2) * (s * x + q)
        + (s * p + r) + 2 * (s * s + g) * q + 2 * s * (s * q + p)"
      by (simp only: 1 2 3 4 5)
    also have "\<dots> = r + 3 * s * p + 3 * (g + 2 * s\<^sup>2) * q + (h + 6 * s * g + 6 * s ^ 3) * x"
      by (simp add: algebra_simps power2_eq_square power3_eq_cube)
    also have "\<dots> = spec_b_dx_b_dx_b G3m G2m Gm k kG kG2 rho ! i"
      unfolding spec_b_dx_b_dx_b_nth [OF assms(1,3) G2 G3 i]
      by (simp add: s_def g_def h_def x_def q_def p_def r_def)
    finally show "b_dx_b_along G2m kG Gm k rho b ! i
        = spec_b_dx_b_dx_b G3m G2m Gm k kG kG2 rho ! i" .
  qed
  have "directional_derivative (b_dx_b G2m kG Gm k) b rho (b_dx_b_along G2m kG Gm k rho b)"
    using assms(1) bf(2) assms(2) kG assms(3) G2 by (rule b_dx_b_directional)
  then have "directional_derivative (b_dx_b G2m kG Gm k) b rho
      (spec_b_dx_b_dx_b G3m G2m Gm k kG kG2 rho)"
    by (simp only: eq)
  with bf(1) show ?thesis by blast
qed


text \<open>Evaluation of the array operations on concrete inputs.\<close>

lemmas np_eval =
  np_dot_mm_def np_dot_vm_def np_dot_mv_def np_dot_vv_def is_mat_def ncols_def dot_def
  column_def mv_def vadd_def np_scale_def np_scale_mat_def np_add_scalar_def np_add_mat_def
  np_add_def np_elementwise_def upt_rec

text \<open>
  Claim C5. For a state \<open>rho\<close> and a vector \<open>k\<close> of length \<open>n\<close>, an \<open>n \<times> n\<close> matrix \<open>G\<close> and
  the precomputed products \<open>G2 = np.dot(G, G)\<close> and \<open>k_T_G = np.dot(k_T, G)\<close>:
  \<open>b_dx_b\<close> returns \<open>((k\<^sup>T G \<rho>) + 2 (k\<^sup>T \<rho>)\<^sup>2) \<rho> + G\<^sup>2 \<rho> + 2 (k\<^sup>T \<rho>) G \<rho>\<close>, and this vector is
  the directional derivative at \<open>rho\<close>, along the value \<open>b(\<rho>)\<close> of the diffusion field, of
  the diffusion field \<open>b(\<rho>) = (k\<^sup>T \<rho>) \<rho> + G \<rho>\<close> of the code (the methods \<open>b_fn\<close>).
\<close>

theorem b_dx_b_exact:
  assumes "length rho = n" "length k = n" "is_mat n n Gm"
    and "np_dot_mm Gm Gm = Inr G2m" "np_dot_vm k Gm = Inr kG"
  shows "\<exists>b. diffusion k Gm rho = Inr b \<and>
             b_dx_b G2m kG Gm k rho = Inr (spec_b_dx_b G2m kG Gm k rho) \<and>
             directional_derivative (diffusion k Gm) b rho (spec_b_dx_b G2m kG Gm k rho)"
  using assms by (rule b_dx_b_derivative)

theorem b_dx_b_exact_witness:
  "length [2, 1::real] = 2 \<and> length [1, 0::real] = 2 \<and> is_mat 2 2 [[0, 1], [1, 0]] \<and>
   np_dot_mm [[0, 1], [1, 0]] [[0, 1], [1, 0]] = Inr [[1, 0], [0, 1]] \<and>
   np_dot_vm [1, 0] [[0, 1], [1, 0]] = Inr [0, 1] \<and>
   diffusion [1, 0] [[0, 1], [1, 0]] [2, 1] = Inr [5, 4] \<and>
   b_dx_b [[1, 0], [0, 1]] [0, 1] [[0, 1], [1, 0]] [1, 0] [2, 1] = Inr [24, 18] \<and>
   directional_derivative (diffusion [1, 0] [[0, 1], [1, 0]]) [5, 4] [2, 1] [24, 18]"
proof -
  have h: "length [2, 1::real] = 2" "length [1, 0::real] = 2" "is_mat 2 2 [[0, 1], [1, 0]]"
    "np_dot_mm [[0, 1], [1, 0]] [[0, 1], [1, 0]] = Inr [[1, 0], [0, 1]]"
    "np_dot_vm [1, 0] [[0, 1], [1, 0]] = Inr [0, 1]"
    by (simp_all add: np_eval)
  have b: "diffusion [1, 0] [[0, 1], [1, 0]] [2, 1] = Inr [5, 4]"
    by (simp add: diffusion_def np_eval)
  have v: "spec_b_dx_b [[1, 0], [0, 1]] [0, 1] [[0, 1], [1, 0]] [1, 0] [2, 1] = [24, 18]"
    by (simp add: spec_b_dx_b_def np_eval)
  from b_dx_b_exact [OF h] b v h show ?thesis by auto
qed


text \<open>
  Claim C4 against the code. For a state \<open>rho\<close> and a vector \<open>k\<close> of length \<open>n\<close>,
  \<open>n \<times> n\<close> matrices \<open>G\<close>, \<open>Q\<close> and the precomputed products \<open>GQ = np.dot(G, Q)\<close> and
  \<open>k_T_Q = np.dot(k_T, Q)\<close>: the directional derivative at \<open>rho\<close> of the diffusion field
  along the drift \<open>Q \<rho>\<close> is the closed form of the claim,
  \<open>GQ \<rho> + (k\<^sup>T \<rho>) Q \<rho> + (k\<^sup>T Q \<rho>) \<rho>\<close>. The function \<open>a_dx_b\<close> returns something else:
  \<open>GQ \<rho> + (k\<^sup>T \<rho>) Q \<rho>\<close> with the number \<open>k\<^sup>T Q \<rho>\<close> added to every entry, since its last
  summand is \<open>np.dot(k_T_Q, rho)\<close> and not \<open>np.dot(k_T_Q, rho)*rho\<close>. The two differ
  wherever \<open>k\<^sup>T Q \<rho> \<noteq> 0\<close> and an entry of \<open>rho\<close> is not 1, as at the input of the witness,
  where the code returns \<open>[6, 4]\<close> and the derivative is \<open>[6, 6]\<close>.
\<close>

theorem a_dx_b_adds_number:
  assumes "length rho = n" "length k = n" "is_mat n n Gm" "is_mat n n Qm"
    and "np_dot_mm Gm Qm = Inr GQm" "np_dot_vm k Qm = Inr kQ"
  shows "a_dx_b GQm k Qm kQ rho =
           Inr (np_add_scalar (vadd (mv GQm rho) (np_scale (dot k rho) (mv Qm rho)))
                  (dot kQ rho)) \<and>
         (\<exists>a. drift Qm rho = Inr a \<and>
              directional_derivative (diffusion k Gm) a rho (spec_a_dx_b GQm k Qm kQ rho))"
proof -
  have GQ: "is_mat n n GQm" using np_dot_mm_product(1) [OF assms(3,4,5)] .
  have kQ: "length kQ = n" using np_dot_vm_product(1) [OF assms(2,4,6)] .
  show ?thesis
    using a_dx_b_ok [OF assms(1,2) kQ assms(4) GQ] spec_a_dx_b_derivative [OF assms]
    by simp
qed

theorem a_dx_b_adds_number_witness:
  "length [1, 2::real] = 2 \<and> length [1, 0::real] = 2 \<and> is_mat 2 2 [[1, 0], [0, 1]] \<and>
   is_mat 2 2 [[0, 1], [1, 0]] \<and>
   np_dot_mm [[1, 0], [0, 1]] [[0, 1], [1, 0]] = Inr [[0, 1], [1, 0]] \<and>
   np_dot_vm [1, 0] [[0, 1], [1, 0]] = Inr [0, 1] \<and>
   drift [[0, 1], [1, 0]] [1, 2] = Inr [2, 1] \<and>
   a_dx_b [[0, 1], [1, 0]] [1, 0] [[0, 1], [1, 0]] [0, 1] [1, 2] = Inr [6, 4] \<and>
   spec_a_dx_b [[0, 1], [1, 0]] [1, 0] [[0, 1], [1, 0]] [0, 1] [1, 2] = [6, 6] \<and>
   directional_derivative (diffusion [1, 0] [[1, 0], [0, 1]]) [2, 1] [1, 2] [6, 6] \<and>
   \<not> directional_derivative (diffusion [1, 0] [[1, 0], [0, 1]]) [2, 1] [1, 2] [6, 4]"
proof -
  have h: "length [1, 2::real] = 2" "length [1, 0::real] = 2" "is_mat 2 2 [[1, 0], [0, 1]]"
    "is_mat 2 2 [[0, 1], [1, 0]]"
    "np_dot_mm [[1, 0], [0, 1]] [[0, 1], [1, 0]] = Inr [[0, 1], [1, 0]]"
    "np_dot_vm [1, 0] [[0, 1], [1, 0]] = Inr [0, 1]"
    by (simp_all add: np_eval)
  have a: "drift [[0, 1], [1, 0]] [1, 2] = Inr [2, 1]"
    by (simp add: drift_def np_eval)
  have c: "np_add_scalar (vadd (mv [[0, 1], [1, 0]] [1, 2])
              (np_scale (dot [1, 0] [1, 2]) (mv [[0, 1], [1, 0]] [1, 2]))) (dot [0, 1] [1, 2])
           = [6, 4]"
    by (simp add: np_eval)
  have v: "spec_a_dx_b [[0, 1], [1, 0]] [1, 0] [[0, 1], [1, 0]] [0, 1] [1, 2] = [6, 6]"
    by (simp add: spec_a_dx_b_def np_eval)
  from a_dx_b_adds_number [OF h] a c v
  have code: "a_dx_b [[0, 1], [1, 0]] [1, 0] [[0, 1], [1, 0]] [0, 1] [1, 2] = Inr [6, 4]"
    and d: "directional_derivative (diffusion [1, 0] [[1, 0], [0, 1]]) [2, 1] [1, 2] [6, 6]"
    by auto
  have "\<not> directional_derivative (diffusion [1, 0] [[1, 0], [0, 1]]) [2, 1] [1, 2] [6, 4]"
    using directional_derivative_unique [OF d] by fastforce
  with h a code v d show ?thesis by simp
qed

text \<open>
  Claim C3 against the code. For a state \<open>rho\<close> and a vector \<open>k\<close> of length \<open>n\<close>, an
  \<open>n \<times> n\<close> matrix \<open>G\<close> and the precomputed products \<open>G2 = np.dot(G, G)\<close>,
  \<open>G3 = np.dot(G2, G)\<close>, \<open>k_T_G = np.dot(k_T, G)\<close> and \<open>k_T_G2 = np.dot(k_T, G2)\<close>: the
  second directional derivative of the diffusion field along itself, that is the
  directional derivative along \<open>b(\<rho>)\<close> of the field \<open>b_dx_b\<close> (which is \<open>(b \<cdot> \<nabla>) b\<close> at every
  state, by the lemma \<open>b_dx_b_derivative\<close>), is the closed form of the claim, with the
  coefficient \<open>3 ((k\<^sup>T G \<rho>) + 2 (k\<^sup>T \<rho>)\<^sup>2)\<close> of \<open>G \<rho>\<close>. The function \<open>b_dx_b_dx_b\<close> returns
  the same expression with the coefficient \<open>3 ((k\<^sup>T G \<rho>) + 2 (k\<^sup>T \<rho>))\<close>: its source has
  \<open>2*k_rho_dot\<close> where the derivative has \<open>2*k_rho_dot**2\<close>. At the input of the witness
  the code returns \<open>[152, 100]\<close> and the derivative is \<open>[164, 124]\<close>.
\<close>

theorem b_dx_b_dx_b_linear_coefficient:
  assumes "length rho = n" "length k = n" "is_mat n n Gm"
    and "np_dot_mm Gm Gm = Inr G2m" "np_dot_mm G2m Gm = Inr G3m"
    and "np_dot_vm k Gm = Inr kG" "np_dot_vm k G2m = Inr kG2"
  shows "b_dx_b_dx_b G3m G2m Gm k kG kG2 rho =
           Inr (vadd (vadd (vadd (mv G3m rho) (np_scale (3 * dot k rho) (mv G2m rho)))
                           (np_scale (3 * (dot kG rho + 2 * dot k rho)) (mv Gm rho)))
                     (np_scale (dot kG2 rho + 6 * dot k rho * dot kG rho + 6 * (dot k rho) ^ 3)
                        rho)) \<and>
         (\<exists>b. diffusion k Gm rho = Inr b \<and>
              directional_derivative (b_dx_b G2m kG Gm k) b rho
                (spec_b_dx_b_dx_b G3m G2m Gm k kG kG2 rho))"
proof -
  have G2: "is_mat n n G2m" using np_dot_mm_product(1) [OF assms(3,3,4)] .
  have G3: "is_mat n n G3m" using np_dot_mm_product(1) [OF G2 assms(3,5)] .
  have kG: "length kG = n" using np_dot_vm_product(1) [OF assms(2,3,6)] .
  have kG2: "length kG2 = n" using np_dot_vm_product(1) [OF assms(2) G2 assms(7)] .
  show ?thesis
    using b_dx_b_dx_b_ok [OF assms(1,2) kG kG2 assms(3) G2 G3]
      spec_b_dx_b_dx_b_derivative [OF assms]
    by simp
qed

theorem b_dx_b_dx_b_linear_coefficient_witness:
  "length [2, 1::real] = 2 \<and> length [1, 0::real] = 2 \<and> is_mat 2 2 [[0, 1], [1, 0]] \<and>
   np_dot_mm [[0, 1], [1, 0]] [[0, 1], [1, 0]] = Inr [[1, 0], [0, 1]] \<and>
   np_dot_mm [[1, 0], [0, 1]] [[0, 1], [1, 0]] = Inr [[0, 1], [1, 0]] \<and>
   np_dot_vm [1, 0] [[0, 1], [1, 0]] = Inr [0, 1] \<and>
   np_dot_vm [1, 0] [[1, 0], [0, 1]] = Inr [1, 0] \<and>
   diffusion [1, 0] [[0, 1], [1, 0]] [2, 1] = Inr [5, 4] \<and>
   b_dx_b_dx_b [[0, 1], [1, 0]] [[1, 0], [0, 1]] [[0, 1], [1, 0]] [1, 0] [0, 1] [1, 0] [2, 1]
     = Inr [152, 100] \<and>
   spec_b_dx_b_dx_b [[0, 1], [1, 0]] [[1, 0], [0, 1]] [[0, 1], [1, 0]] [1, 0] [0, 1] [1, 0] [2, 1]
     = [164, 124] \<and>
   directional_derivative (b_dx_b [[1, 0], [0, 1]] [0, 1] [[0, 1], [1, 0]] [1, 0])
     [5, 4] [2, 1] [164, 124] \<and>
   \<not> directional_derivative (b_dx_b [[1, 0], [0, 1]] [0, 1] [[0, 1], [1, 0]] [1, 0])
     [5, 4] [2, 1] [152, 100]"
proof -
  have h: "length [2, 1::real] = 2" "length [1, 0::real] = 2" "is_mat 2 2 [[0, 1], [1, 0]]"
    "np_dot_mm [[0, 1], [1, 0]] [[0, 1], [1, 0]] = Inr [[1, 0], [0, 1]]"
    "np_dot_mm [[1, 0], [0, 1]] [[0, 1], [1, 0]] = Inr [[0, 1], [1, 0]]"
    "np_dot_vm [1, 0] [[0, 1], [1, 0]] = Inr [0, 1]"
    "np_dot_vm [1, 0] [[1, 0], [0, 1]] = Inr [1, 0]"
    by (simp_all add: np_eval)
  have b: "diffusion [1, 0] [[0, 1], [1, 0]] [2, 1] = Inr [5, 4]"
    by (simp add: diffusion_def np_eval)
  have c: "vadd (vadd (vadd (mv [[0, 1], [1, 0]] [2, 1])
                 (np_scale (3 * dot [1, 0] [2, 1]) (mv [[1, 0], [0, 1]] [2, 1])))
              (np_scale (3 * (dot [0, 1] [2, 1] + 2 * dot [1, 0] [2, 1]))
                 (mv [[0, 1], [1, 0]] [2, 1])))
           (np_scale (dot [1, 0] [2, 1] + 6 * dot [1, 0] [2, 1] * dot [0, 1] [2, 1]
                      + 6 * (dot [1, 0] [2, 1]) ^ 3) [2, 1])
         = [152, 100]"
    by (simp add: np_eval)
  have v: "spec_b_dx_b_dx_b [[0, 1], [1, 0]] [[1, 0], [0, 1]] [[0, 1], [1, 0]] [1, 0] [0, 1]
             [1, 0] [2, 1] = [164, 124]"
    by (simp add: spec_b_dx_b_dx_b_def np_eval)
  from b_dx_b_dx_b_linear_coefficient [OF h] b c v
  have code: "b_dx_b_dx_b [[0, 1], [1, 0]] [[1, 0], [0, 1]] [[0, 1], [1, 0]] [1, 0] [0, 1]
        [1, 0] [2, 1] = Inr [152, 100]"
    and d: "directional_derivative (b_dx_b [[1, 0], [0, 1]] [0, 1] [[0, 1], [1, 0]] [1, 0])
        [5, 4] [2, 1] [164, 124]"
    by auto
  have "\<not> directional_derivative (b_dx_b [[1, 0], [0, 1]] [0, 1] [[0, 1], [1, 0]] [1, 0])
        [5, 4] [2, 1] [152, 100]"
    using directional_derivative_unique [OF d] by fastforce
  with h b code v d show ?thesis by simp
qed

section \<open>Properties of the integrators as arguments of \<open>calc_rate\<close>\<close>

lemma calc_rate_integrate_function_object:
  "calc_rate_integrate randn vectorize milstein faulty_milstein taylor
     uncond_vac_integrate_function g rho_0 tms U1s U2s = Inl AttributeError"
  "calc_rate_integrate randn vectorize milstein faulty_milstein taylor
     uncond_gauss_integrate_function g rho_0 tms U1s U2s = Inl AttributeError"
  by (simp_all add: calc_rate_integrate_def integrator_integrate_def)

lemma calc_rate_integrate_instance:
  assumes "vectorize rho_0 (basis self) = Inr comps"
  shows "calc_rate_integrate randn vectorize milstein faulty_milstein taylor
           (MilsteinHomodyneIntegrator self) g rho_0 tms U1s U2s =
         milstein (Milstein_a_fn self) (Milstein_b_fn self) (Milstein_b_dx_b_fn self)
           (map Re comps) tms U1s"
    and "calc_rate_integrate randn vectorize milstein faulty_milstein taylor
           (FaultyMilsteinHomodyneIntegrator self) g rho_0 tms U1s U2s =
         faulty_milstein (Milstein_a_fn self) (Milstein_b_fn self) (Milstein_b_dx_b_fn self)
           (map Re comps) tms U1s"
  using assms
  by (simp_all add: calc_rate_integrate_def integrator_integrate_def Milstein_integrate_def
      FaultyMilstein_integrate_def real_components_def noise_or_draw_def)

lemma calc_rate_integrate_Taylor:
  assumes "vectorize rho_0 (basis selfT) = Inr comps"
  shows "calc_rate_integrate randn vectorize milstein faulty_milstein taylor
           (Taylor_1_5_HomodyneIntegrator selfT) g rho_0 tms U1s U2s =
         taylor (Taylor_a_fn selfT) (Taylor_b_fn selfT) (Taylor_b_dx_b_fn selfT)
           (Taylor_b_dx_a_fn selfT) (Taylor_a_dx_b_fn selfT) (Taylor_a_dx_a_fn selfT)
           (Taylor_b_dx_b_dx_b_fn selfT) (map Re comps) tms U1s U2s"
  using assms
  by (simp add: calc_rate_integrate_def integrator_integrate_def Taylor_integrate_def
      real_components_def noise_or_draw_def)

lemma calc_rate_function_object:
  assumes "4 dvd n" "length tms = n + 1" "length U1s = n" "length U2s = n"
  shows "calc_rate randn g
           (calc_rate_integrate randn vectorize milstein faulty_milstein taylor
              uncond_vac_integrate_function g)
           rho_0 tms (Some U1s) (Some U2s) = (Inl AttributeError, g)"
    and "calc_rate randn g
           (calc_rate_integrate randn vectorize milstein faulty_milstein taylor
              uncond_gauss_integrate_function g)
           rho_0 tms (Some U1s) (Some U2s) = (Inl AttributeError, g)"
  by (simp_all add: calc_rate_def noise_or_draw_def double_increments_twice [OF assms]
      calc_rate_integrate_function_object)

text \<open>
  Claim C9, as the code has it. On a grid whose number of intervals is divisible by 4,
  with noise of that length: for an instance of each of the three classes
  (\<open>MilsteinHomodyneIntegrator\<close>, \<open>FaultyMilsteinHomodyneIntegrator\<close>,
  \<open>Taylor_1_5_HomodyneIntegrator\<close>) the call \<open>integrator.integrate(rho_0, times, U1s,
  U2s)\<close> of \<open>calc_rate\<close> reaches the method \<open>integrate\<close> of the class, which accepts both
  noise arguments (the Milstein classes do not pass \<open>U2s\<close> on), and \<open>calc_rate\<close> returns the
  rate of the three stepper runs on the vectorized initial state whenever \<open>vectorize\<close>
  and the stepper return. The unconditional vacuum and Gaussian integrators are
  module-level functions of \<open>(rho_0, c_op, basis, times)\<close> and \<open>(rho_0, c_op, M_sq, N, H,
  basis, times)\<close> without noise arguments; they have no method \<open>integrate\<close>, and
  \<open>calc_rate\<close> on either of them raises \<open>AttributeError\<close>.
\<close>

theorem calc_rate_on_integrators:
  assumes "4 dvd n" "length tms = n + 1" "length U1s = n" "length U2s = n"
  shows
   "calc_rate randn g
      (calc_rate_integrate randn vectorize milstein faulty_milstein taylor
         uncond_vac_integrate_function g)
      rho_0 tms (Some U1s) (Some U2s) = (Inl AttributeError, g) \<and>
    calc_rate randn g
      (calc_rate_integrate randn vectorize milstein faulty_milstein taylor
         uncond_gauss_integrate_function g)
      rho_0 tms (Some U1s) (Some U2s) = (Inl AttributeError, g) \<and>
    (vectorize rho_0 (basis self) = Inr comps \<and>
     milstein (Milstein_a_fn self) (Milstein_b_fn self) (Milstein_b_dx_b_fn self)
       (map Re comps) tms U1s = Inr rhos \<and>
     milstein (Milstein_a_fn self) (Milstein_b_fn self) (Milstein_b_dx_b_fn self)
       (map Re comps) (spec_coarse_times n tms) (spec_coarse_U1 n U1s) = Inr rhos_2 \<and>
     milstein (Milstein_a_fn self) (Milstein_b_fn self) (Milstein_b_dx_b_fn self)
       (map Re comps) (spec_coarse_times (n div 2) (spec_coarse_times n tms))
       (spec_coarse_U1 (n div 2) (spec_coarse_U1 n U1s)) = Inr rhos_4 \<longrightarrow>
     calc_rate randn g
       (calc_rate_integrate randn vectorize milstein faulty_milstein taylor
          (MilsteinHomodyneIntegrator self) g)
       rho_0 tms (Some U1s) (Some U2s) = (rate_of_final_states rhos rhos_2 rhos_4, g)) \<and>
    (vectorize rho_0 (basis self) = Inr comps \<and>
     faulty_milstein (Milstein_a_fn self) (Milstein_b_fn self) (Milstein_b_dx_b_fn self)
       (map Re comps) tms U1s = Inr rhos \<and>
     faulty_milstein (Milstein_a_fn self) (Milstein_b_fn self) (Milstein_b_dx_b_fn self)
       (map Re comps) (spec_coarse_times n tms) (spec_coarse_U1 n U1s) = Inr rhos_2 \<and>
     faulty_milstein (Milstein_a_fn self) (Milstein_b_fn self) (Milstein_b_dx_b_fn self)
       (map Re comps) (spec_coarse_times (n div 2) (spec_coarse_times n tms))
       (spec_coarse_U1 (n div 2) (spec_coarse_U1 n U1s)) = Inr rhos_4 \<longrightarrow>
     calc_rate randn g
       (calc_rate_integrate randn vectorize milstein faulty_milstein taylor
          (FaultyMilsteinHomodyneIntegrator self) g)
       rho_0 tms (Some U1s) (Some U2s) = (rate_of_final_states rhos rhos_2 rhos_4, g)) \<and>
    (vectorize rho_0 (basis selfT) = Inr comps \<and>
     taylor (Taylor_a_fn selfT) (Taylor_b_fn selfT) (Taylor_b_dx_b_fn selfT)
       (Taylor_b_dx_a_fn selfT) (Taylor_a_dx_b_fn selfT) (Taylor_a_dx_a_fn selfT)
       (Taylor_b_dx_b_dx_b_fn selfT) (map Re comps) tms U1s U2s = Inr rhos \<and>
     taylor (Taylor_a_fn selfT) (Taylor_b_fn selfT) (Taylor_b_dx_b_fn selfT)
       (Taylor_b_dx_a_fn selfT) (Taylor_a_dx_b_fn selfT) (Taylor_a_dx_a_fn selfT)
       (Taylor_b_dx_b_dx_b_fn selfT) (map Re comps) (spec_coarse_times n tms)
       (spec_coarse_U1 n U1s) (spec_coarse_U2 n U1s U2s) = Inr rhos_2 \<and>
     taylor (Taylor_a_fn selfT) (Taylor_b_fn selfT) (Taylor_b_dx_b_fn selfT)
       (Taylor_b_dx_a_fn selfT) (Taylor_a_dx_b_fn selfT) (Taylor_a_dx_a_fn selfT)
       (Taylor_b_dx_b_dx_b_fn selfT) (map Re comps)
       (spec_coarse_times (n div 2) (spec_coarse_times n tms))
       (spec_coarse_U1 (n div 2) (spec_coarse_U1 n U1s))
       (spec_coarse_U2 (n div 2) (spec_coarse_U1 n U1s) (spec_coarse_U2 n U1s U2s))
       = Inr rhos_4 \<longrightarrow>
     calc_rate randn g
       (calc_rate_integrate randn vectorize milstein faulty_milstein taylor
          (Taylor_1_5_HomodyneIntegrator selfT) g)
       rho_0 tms (Some U1s) (Some U2s) = (rate_of_final_states rhos rhos_2 rhos_4, g))"
proof (intro conjI impI)
  show "calc_rate randn g
      (calc_rate_integrate randn vectorize milstein faulty_milstein taylor
         uncond_vac_integrate_function g)
      rho_0 tms (Some U1s) (Some U2s) = (Inl AttributeError, g)"
    using assms by (rule calc_rate_function_object)
  show "calc_rate randn g
      (calc_rate_integrate randn vectorize milstein faulty_milstein taylor
         uncond_gauss_integrate_function g)
      rho_0 tms (Some U1s) (Some U2s) = (Inl AttributeError, g)"
    using assms by (rule calc_rate_function_object)
next
  assume a: "vectorize rho_0 (basis self) = Inr comps \<and>
     milstein (Milstein_a_fn self) (Milstein_b_fn self) (Milstein_b_dx_b_fn self)
       (map Re comps) tms U1s = Inr rhos \<and>
     milstein (Milstein_a_fn self) (Milstein_b_fn self) (Milstein_b_dx_b_fn self)
       (map Re comps) (spec_coarse_times n tms) (spec_coarse_U1 n U1s) = Inr rhos_2 \<and>
     milstein (Milstein_a_fn self) (Milstein_b_fn self) (Milstein_b_dx_b_fn self)
       (map Re comps) (spec_coarse_times (n div 2) (spec_coarse_times n tms))
       (spec_coarse_U1 (n div 2) (spec_coarse_U1 n U1s)) = Inr rhos_4"
  show "calc_rate randn g
       (calc_rate_integrate randn vectorize milstein faulty_milstein taylor
          (MilsteinHomodyneIntegrator self) g)
       rho_0 tms (Some U1s) (Some U2s) = (rate_of_final_states rhos rhos_2 rhos_4, g)"
    using assms
    by (rule calc_rate_runs) (simp_all add: a calc_rate_integrate_instance)
next
  assume a: "vectorize rho_0 (basis self) = Inr comps \<and>
     faulty_milstein (Milstein_a_fn self) (Milstein_b_fn self) (Milstein_b_dx_b_fn self)
       (map Re comps) tms U1s = Inr rhos \<and>
     faulty_milstein (Milstein_a_fn self) (Milstein_b_fn self) (Milstein_b_dx_b_fn self)
       (map Re comps) (spec_coarse_times n tms) (spec_coarse_U1 n U1s) = Inr rhos_2 \<and>
     faulty_milstein (Milstein_a_fn self) (Milstein_b_fn self) (Milstein_b_dx_b_fn self)
       (map Re comps) (spec_coarse_times (n div 2) (spec_coarse_times n tms))
       (spec_coarse_U1 (n div 2) (spec_coarse_U1 n U1s)) = Inr rhos_4"
  show "calc_rate randn g
       (calc_rate_integrate randn vectorize milstein faulty_milstein taylor
          (FaultyMilsteinHomodyneIntegrator self) g)
       rho_0 tms (Some U1s) (Some U2s) = (rate_of_final_states rhos rhos_2 rhos_4, g)"
    using assms
    by (rule calc_rate_runs) (simp_all add: a calc_rate_integrate_instance)
next
  assume a: "vectorize rho_0 (basis selfT) = Inr comps \<and>
     taylor (Taylor_a_fn selfT) (Taylor_b_fn selfT) (Taylor_b_dx_b_fn selfT)
       (Taylor_b_dx_a_fn selfT) (Taylor_a_dx_b_fn selfT) (Taylor_a_dx_a_fn selfT)
       (Taylor_b_dx_b_dx_b_fn selfT) (map Re comps) tms U1s U2s = Inr rhos \<and>
     taylor (Taylor_a_fn selfT) (Taylor_b_fn selfT) (Taylor_b_dx_b_fn selfT)
       (Taylor_b_dx_a_fn selfT) (Taylor_a_dx_b_fn selfT) (Taylor_a_dx_a_fn selfT)
       (Taylor_b_dx_b_dx_b_fn selfT) (map Re comps) (spec_coarse_times n tms)
       (spec_coarse_U1 n U1s) (spec_coarse_U2 n U1s U2s) = Inr rhos_2 \<and>
     taylor (Taylor_a_fn selfT) (Taylor_b_fn selfT) (Taylor_b_dx_b_fn selfT)
       (Taylor_b_dx_a_fn selfT) (Taylor_a_dx_b_fn selfT) (Taylor_a_dx_a_fn selfT)
       (Taylor_b_dx_b_dx_b_fn selfT) (map Re comps)
       (spec_coarse_times (n div 2) (spec_coarse_times n tms))
       (spec_coarse_U1 (n div 2) (spec_coarse_U1 n U1s))
       (spec_coarse_U2 (n div 2) (spec_coarse_U1 n U1s) (spec_coarse_U2 n U1s U2s))
       = Inr rhos_4"
  show "calc_rate randn g
       (calc_rate_integrate randn vectorize milstein faulty_milstein taylor
          (Taylor_1_5_HomodyneIntegrator selfT) g)
       rho_0 tms (Some U1s) (Some U2s) = (rate_of_final_states rhos rhos_2 rhos_4, g)"
    using assms
    by (rule calc_rate_runs) (simp_all add: a calc_rate_integrate_Taylor)
qed


theorem calc_rate_on_integrators_witness:
  "4 dvd (4::nat) \<and> length [0, 1, 2, 3, 4::real] = 4 + 1 \<and>
   length [1, 1, 1, 1::real] = 4 \<and> length [2, 2, 2, 2::real] = 4 \<and>
   calc_rate (\<lambda>g n. (replicate n 0, g)) ()
     (calc_rate_integrate (\<lambda>g n. (replicate n 0, g)) (\<lambda>r b. Inr [Complex r 0])
        (\<lambda>a b c r t u. Inr [[real (length t)]]) (\<lambda>a b c r t u. Inr [[real (length t)]])
        (\<lambda>a b c d e f h r t u v. Inr [[real (length t)]])
        (uncond_vac_integrate_function :: unit integrator) ())
     (1::real) [0, 1, 2, 3, 4] (Some [1, 1, 1, 1]) (Some [2, 2, 2, 2])
   = (Inl AttributeError, ()) \<and>
   calc_rate (\<lambda>g n. (replicate n 0, g)) ()
     (calc_rate_integrate (\<lambda>g n. (replicate n 0, g)) (\<lambda>r b. Inr [Complex r 0])
        (\<lambda>a b c r t u. Inr [[real (length t)]]) (\<lambda>a b c r t u. Inr [[real (length t)]])
        (\<lambda>a b c d e f h r t u v. Inr [[real (length t)]])
        (MilsteinHomodyneIntegrator
           \<lparr>basis = (), Q = [[0]], G = [[0]], k_T = [0], k_T_G = [0], G2 = [[0]]\<rparr>) ())
     (1::real) [0, 1, 2, 3, 4] (Some [1, 1, 1, 1]) (Some [2, 2, 2, 2])
   = (Inr (Finite ((ln 1 - ln 2) / ln 2)), ())"
proof -
  have r: "rate_of_final_states [[5]] [[3]] [[2]] = Inr (Finite ((ln 1 - ln 2) / ln 2))"
    by (simp add: rate_of_final_states_def py_last_def np_sub_def np_elementwise_def
        l1_norm_def np_log_def)
  show ?thesis
    using calc_rate_on_integrators [of 4 "[0, 1, 2, 3, 4]" "[1, 1, 1, 1]" "[2, 2, 2, 2]"
      "\<lambda>g n. (replicate n 0, g)" "()" "\<lambda>r b. Inr [Complex r 0]"
      "\<lambda>a b c r t u. Inr [[real (length t)]]" "\<lambda>a b c r t u. Inr [[real (length t)]]"
      "\<lambda>a b c d e f h r t u v. Inr [[real (length t)]]" "1::real"
      "\<lparr>basis = (), Q = [[0]], G = [[0]], k_T = [0], k_T_G = [0], G2 = [[0]]\<rparr>"
      "[Complex 1 0]" "[[5]]" "[[3]]" "[[2]]"]
    by (simp add: length_spec_coarse r)
qed

text \<open>
  The claim as stated fails for the unconditional integrators: \<open>calc_rate\<close> cannot
  invoke them.
\<close>

theorem calc_rate_on_integrators_counterexample:
  "calc_rate (\<lambda>g n. (replicate n 0, g)) ()
     (calc_rate_integrate (\<lambda>g n. (replicate n 0, g)) (\<lambda>r b. Inr [Complex r 0])
        (\<lambda>a b c r t u. Inr [[real (length t)]]) (\<lambda>a b c r t u. Inr [[real (length t)]])
        (\<lambda>a b c d e f h r t u v. Inr [[real (length t)]])
        (uncond_vac_integrate_function :: unit integrator) ())
     (1::real) [0, 1, 2, 3, 4] (Some [1, 1, 1, 1]) (Some [2, 2, 2, 2])
   = (Inl AttributeError, ()) \<and>
   calc_rate (\<lambda>g n. (replicate n 0, g)) ()
     (calc_rate_integrate (\<lambda>g n. (replicate n 0, g)) (\<lambda>r b. Inr [Complex r 0])
        (\<lambda>a b c r t u. Inr [[real (length t)]]) (\<lambda>a b c r t u. Inr [[real (length t)]])
        (\<lambda>a b c d e f h r t u v. Inr [[real (length t)]])
        (uncond_gauss_integrate_function :: unit integrator) ())
     (1::real) [0, 1, 2, 3, 4] (Some [1, 1, 1, 1]) (Some [2, 2, 2, 2])
   = (Inl AttributeError, ())"
proof -
  have h: "4 dvd (4::nat)" "length [0, 1, 2, 3, 4::real] = 4 + 1"
    "length [1, 1, 1, 1::real] = 4" "length [2, 2, 2, 2::real] = 4"
    by simp_all
  show ?thesis by (intro conjI calc_rate_function_object [OF h])
qed

end
